theory Spec2Isabelle
  imports Main "HOL-Library.Word" "HOL-Library.AList"
begin

section \<open>Common data\<close>

type_synonym bytes = "8 word list"

text \<open>
  Go errors are values. \<open>Err msg\<close> is \<open>fmt.Errorf(msg)\<close> (the constant part of the
  format string), \<open>Wrapped msg e\<close> is \<open>fmt.Errorf(msg + ": %v", e)\<close>, and \<open>Panic\<close> is a
  run-time panic (index out of range, nil dereference, division by zero).
\<close>

datatype error = Err string | Wrapped string error | Panic string

text \<open>
  The key-value store behind \<open>native.CacheDB\<close>: \<open>Get(key)\<close> returns \<open>(bytes|nil, error)\<close>,
  so a key is unreadable, absent or present. \<open>Put\<close> and \<open>Delete\<close> make the key readable.
\<close>

datatype 'a slot = Unreadable | Absent | Present 'a

type_synonym cachedb = "bytes \<Rightarrow> bytes slot"

definition Get :: "cachedb \<Rightarrow> bytes \<Rightarrow> error + bytes option" where
  "Get db key = (case db key of
       Unreadable \<Rightarrow> Inl (Err ''CacheDB.Get error'')
     | Absent \<Rightarrow> Inr None
     | Present v \<Rightarrow> Inr (Some v))"

definition Put :: "cachedb \<Rightarrow> bytes \<Rightarrow> bytes \<Rightarrow> cachedb" where
  "Put db key val = db(key := Present val)"

text \<open>\<open>utils.ConcatKey(contract, args...)\<close>: the contract address followed by the arguments.\<close>

definition ConcatKey :: "bytes \<Rightarrow> bytes list \<Rightarrow> bytes" where
  "ConcatKey contract args = contract @ concat args"

text \<open>Go's \<open>encoding/hex\<close>: \<open>hex.DecodeString\<close> fails on an odd length or a non-hex character.\<close>

definition fromHexChar :: "char \<Rightarrow> 8 word option" where
  "fromHexChar c =
     (let n = (of_char c :: nat) in
      if 48 \<le> n \<and> n \<le> 57 then Some (of_nat (n - 48))
      else if 97 \<le> n \<and> n \<le> 102 then Some (of_nat (n - 87))
      else if 65 \<le> n \<and> n \<le> 70 then Some (of_nat (n - 55))
      else None)"

fun DecodeString :: "string \<Rightarrow> bytes option" where
  "DecodeString [] = Some []"
| "DecodeString [c] = None"
| "DecodeString (a # b # r) =
     (case fromHexChar a of None \<Rightarrow> None | Some x \<Rightarrow>
      (case fromHexChar b of None \<Rightarrow> None | Some y \<Rightarrow>
       (case DecodeString r of None \<Rightarrow> None | Some rest \<Rightarrow> Some ((x * 16 + y) # rest))))"

text \<open>\<open>hex.EncodeToString\<close>: two lower-case digits per byte.\<close>

definition hexdigit :: "nat \<Rightarrow> char" where
  "hexdigit n = ''0123456789abcdef'' ! (n mod 16)"

definition EncodeToString :: "bytes \<Rightarrow> string" where
  "EncodeToString bs = concat (map (\<lambda>b. [hexdigit (unat b div 16), hexdigit (unat b)]) bs)"

section \<open>Governance: the node manager (node_manager.go)\<close>

subsection \<open>Stored records\<close>

datatype Status = CandidateStatus | ConsensusStatus | QuitingStatus | BlackStatus

record PeerPoolItem =
  Index :: "32 word"
  PeerPubkey :: string
  Address :: bytes
  Status :: Status
  Pos :: "64 word"
  LockPos :: "64 word"

text \<open>
  \<open>PeerPoolMap.PeerPoolMap\<close> is a \<open>map[string]*PeerPoolItem\<close>: an association list with
  distinct keys; \<open>m[k] = v\<close> is \<open>AList.update k v m\<close> and \<open>m[k]\<close> is \<open>map_of m k\<close>.
\<close>

type_synonym PeerPoolMap = "(string \<times> PeerPoolItem) list"

record GovernanceView =
  View :: "32 word"
  ViewHeight :: "32 word"
  ViewTxHash :: bytes

record Configuration =
  N :: "32 word"
  C :: "32 word"
  K :: "32 word"
  L :: "32 word"
  BlockMsgDelay :: "32 word"
  HashMsgDelay :: "32 word"
  PeerHandshakeTimeout :: "32 word"
  MaxBlockChangeView :: "32 word"

text \<open>\<open>PreConfig.Configuration\<close> is a pointer: \<open>None\<close> is \<open>nil\<close>.\<close>

record PreConfig =
  Configuration :: "Configuration option"
  SetView :: "32 word"

record GlobalParam =
  MinInitStake :: "32 word"
  CandidateNum :: "32 word"

record BlackListItem =
  PeerPubkey :: string
  Address :: bytes
  Pos :: "64 word"

record RegisterPeerParam =
  PeerPubkey :: string
  Address :: bytes
  Pos :: "64 word"

record PeerParam =
  PeerPubkey :: string

record PeerParam2 =
  PeerPubkey :: string
  Address :: bytes

text \<open>
  The node manager's part of the store, one field per key prefix of the source
  (\<open>GOVERNANCE_VIEW\<close>, \<open>VBFT_CONFIG\<close>, ...); the keyed prefixes are functions of the rest of
  the key (the decoded public key, the view). Records are stored decoded. \<open>ONT_TRANSFERS\<close>
  logs the transfers the asset contract has executed, \<open>(from, to, amount)\<close>.
\<close>

record store =
  GOVERNANCE_VIEW :: "GovernanceView slot"
  VBFT_CONFIG :: "Configuration slot"
  PRE_CONFIG :: "PreConfig slot"
  CANDIDITE_INDEX :: "32 word slot"
  PEER_APPLY :: "bytes \<Rightarrow> RegisterPeerParam slot"
  PEER_POOL :: "32 word \<Rightarrow> PeerPoolMap slot"
  PEER_INDEX :: "bytes \<Rightarrow> 32 word slot"
  BLACK_LIST :: "bytes \<Rightarrow> BlackListItem slot"
  GLOBAL_PARAM :: "GlobalParam slot"
  ONT_TRANSFERS :: "(bytes \<times> bytes \<times> 64 word) list"

text \<open>The call context: \<open>native.GetInput()\<close> and the witness check of the transaction.\<close>

record GovService =
  GetInput :: bytes
  CheckWitness :: "bytes \<Rightarrow> bool"

text \<open>
  What the handlers call outside this file: the parameter deserialisers, the public-key
  format check, the operator address derived from the genesis bookkeepers, the contract's
  own address, and the asset contract that executes (or refuses) a transfer given the
  transfers made so far.
\<close>

record gov_deps =
  deserRegisterPeerParam :: "bytes \<Rightarrow> RegisterPeerParam option"
  deserPeerParam :: "bytes \<Rightarrow> PeerParam option"
  deserPeerParam2 :: "bytes \<Rightarrow> PeerParam2 option"
  deserConfiguration :: "bytes \<Rightarrow> Configuration option"
  deserGlobalParam :: "bytes \<Rightarrow> GlobalParam option"
  ValidatePeerPubKeyFormat :: "string \<Rightarrow> bool"
  AddressFromBookkeepers :: "error + bytes"
  NodeManagerContractAddress :: bytes
  transferOnt :: "(bytes \<times> bytes \<times> 64 word) list \<Rightarrow> bytes \<Rightarrow> bytes \<Rightarrow> 64 word \<Rightarrow> bool"

subsection \<open>Helpers of the package that are not in node_manager.go\<close>

text \<open>
  Modelled from the spec: \<open>common.AddressParseFromBytes\<close>; an address is 20 bytes (spec 3,
  PeerPoolItem).
\<close>

definition AddressParseFromBytes :: "bytes \<Rightarrow> error + bytes" where
  "AddressParseFromBytes f =
     (if length f \<noteq> 20 then Inl (Err ''[Common]: AddressParseFromBytes err, len != 20'')
      else Inr f)"

definition ValidateOwner :: "GovService \<Rightarrow> bytes \<Rightarrow> error + unit" where
  "ValidateOwner native address =
     (if CheckWitness native address then Inr ()
      else Inl (Err ''validateOwner, authentication failed!''))"

text \<open>
  Modelled from the spec: the typed accessors \<open>GetView\<close>, \<open>GetPeerPoolMap\<close>, \<open>GetConfig\<close>,
  \<open>getPreConfig\<close>, \<open>getGlobalParam\<close>, \<open>getCandidateIndex\<close>, \<open>GetPeeApply\<close> and the
  \<open>put...\<close> functions are in another file of the package. A getter fails when its record
  cannot be read or was never stored; \<open>getPreConfig\<close> returns the zero value when nothing
  is staged (spec 3: PreConfig "stages a replacement Configuration tagged with the view");
  \<open>GetPeeApply\<close> returns \<open>nil\<close> for a key with no application. A put stores the record and has
  no failure of its own beyond decoding the key.
\<close>

definition GetView :: "store \<Rightarrow> error + 32 word" where
  "GetView st = (case GOVERNANCE_VIEW st of
       Present governanceView \<Rightarrow> Inr (View governanceView)
     | _ \<Rightarrow> Inl (Err ''getView, getGovernanceView error''))"

definition GetPeerPoolMap :: "store \<Rightarrow> 32 word \<Rightarrow> error + PeerPoolMap" where
  "GetPeerPoolMap st view = (case PEER_POOL st view of
       Present peerPoolMap \<Rightarrow> Inr peerPoolMap
     | _ \<Rightarrow> Inl (Err ''getPeerPoolMap, peerPoolMap is nil''))"

definition GetConfig :: "store \<Rightarrow> error + Configuration" where
  "GetConfig st = (case VBFT_CONFIG st of
       Present config \<Rightarrow> Inr config
     | _ \<Rightarrow> Inl (Err ''getConfig, configBytes is nil''))"

definition getPreConfig :: "store \<Rightarrow> error + PreConfig" where
  "getPreConfig st = (case PRE_CONFIG st of
       Present preConfig \<Rightarrow> Inr preConfig
     | Absent \<Rightarrow> Inr \<lparr>Configuration = None, SetView = 0\<rparr>
     | Unreadable \<Rightarrow> Inl (Err ''getPreConfig, get preConfigBytes error''))"

definition getGlobalParam :: "store \<Rightarrow> error + GlobalParam" where
  "getGlobalParam st = (case GLOBAL_PARAM st of
       Present globalParam \<Rightarrow> Inr globalParam
     | _ \<Rightarrow> Inl (Err ''getGlobalParam, globalParamBytes is nil''))"

definition getCandidateIndex :: "store \<Rightarrow> error + 32 word" where
  "getCandidateIndex st = (case CANDIDITE_INDEX st of
       Present candidateIndex \<Rightarrow> Inr candidateIndex
     | _ \<Rightarrow> Inl (Err ''getCandidateIndex, candidateIndex is not init''))"

definition GetPeeApply :: "store \<Rightarrow> string \<Rightarrow> error + RegisterPeerParam option" where
  "GetPeeApply st peerPubkey =
     (case DecodeString peerPubkey of
        None \<Rightarrow> Inl (Err ''GetPeeApply, peerPubkey format error'')
      | Some peerPubkeyPrefix \<Rightarrow>
        (case PEER_APPLY st peerPubkeyPrefix of
           Unreadable \<Rightarrow> Inl (Err ''GetPeeApply, get peerBytes error'')
         | Absent \<Rightarrow> Inr None
         | Present peer \<Rightarrow> Inr (Some peer)))"

definition putPeerApply :: "store \<Rightarrow> RegisterPeerParam \<Rightarrow> error + store" where
  "putPeerApply st peer =
     (case DecodeString (RegisterPeerParam.PeerPubkey peer) of
        None \<Rightarrow> Inl (Err ''putPeerApply, peerPubkey format error'')
      | Some peerPubkeyPrefix \<Rightarrow>
          Inr (st\<lparr>PEER_APPLY := (PEER_APPLY st)(peerPubkeyPrefix := Present peer)\<rparr>))"

definition putPeerPoolMap :: "store \<Rightarrow> PeerPoolMap \<Rightarrow> 32 word \<Rightarrow> error + store" where
  "putPeerPoolMap st peerPoolMap view =
     Inr (st\<lparr>PEER_POOL := (PEER_POOL st)(view := Present peerPoolMap)\<rparr>)"

definition putCandidateIndex :: "store \<Rightarrow> 32 word \<Rightarrow> error + store" where
  "putCandidateIndex st candidateIndex = Inr (st\<lparr>CANDIDITE_INDEX := Present candidateIndex\<rparr>)"

definition putPreConfig :: "store \<Rightarrow> PreConfig \<Rightarrow> error + store" where
  "putPreConfig st preConfig = Inr (st\<lparr>PRE_CONFIG := Present preConfig\<rparr>)"

definition putGlobalParam :: "store \<Rightarrow> GlobalParam \<Rightarrow> error + store" where
  "putGlobalParam st globalParam = Inr (st\<lparr>GLOBAL_PARAM := Present globalParam\<rparr>)"

text \<open>
  Modelled from the spec: \<open>appCallTransferOnt\<close> calls the asset transfer collaborator
  (spec 6: \<open>Transfer(from, to, amount) \<rightarrow> error\<close>); a transfer that is executed is logged.
\<close>

definition appCallTransferOnt ::
  "gov_deps \<Rightarrow> store \<Rightarrow> bytes \<Rightarrow> bytes \<Rightarrow> 64 word \<Rightarrow> error + store" where
  "appCallTransferOnt d st from to amount =
     (if transferOnt d (ONT_TRANSFERS st) from to amount
      then Inr (st\<lparr>ONT_TRANSFERS := ONT_TRANSFERS st @ [(from, to, amount)]\<rparr>)
      else Inl (Err ''appCallTransferOnt, appCall error''))"

text \<open>
  The counting loop that \<open>ApproveCandidate\<close>, \<open>QuitNode\<close> and \<open>UpdateConfig\<close> each run over
  the peer pool: the number of items with status Candidate or Consensus (a Go \<open>int\<close>, which
  cannot overflow here).
\<close>

definition activeNum :: "PeerPoolMap \<Rightarrow> nat" where
  "activeNum peerPoolMap =
     length (filter (\<lambda>(key, peerPoolItem).
        PeerPoolItem.Status peerPoolItem = CandidateStatus \<or>
        PeerPoolItem.Status peerPoolItem = ConsensusStatus) peerPoolMap)"

subsection \<open>The handlers\<close>

text \<open>
  A handler returns \<open>(BYTE_TRUE, nil)\<close> or \<open>(BYTE_FALSE | nil, err)\<close>; the model returns
  \<open>Inr True\<close> or \<open>Inl err\<close>, together with the store as the handler leaves it.
\<close>

definition RegisterCandidate ::
  "gov_deps \<Rightarrow> GovService \<Rightarrow> store \<Rightarrow> (error + bool) \<times> store" where
  "RegisterCandidate d native st =
    (case deserRegisterPeerParam d (GetInput native) of
       None \<Rightarrow> (Inl (Err ''registerCandidate, contract params deserialize error''), st)
     | Some params \<Rightarrow>
    (case AddressParseFromBytes (RegisterPeerParam.Address params) of
       Inl e \<Rightarrow> (Inl (Wrapped ''registerCandidate, common.AddressParseFromBytes error'' e), st)
     | Inr address \<Rightarrow>
    (case ValidateOwner native address of
       Inl e \<Rightarrow> (Inl (Wrapped ''registerCandidate, checkWitness error'' e), st)
     | Inr _ \<Rightarrow>
    if \<not> ValidatePeerPubKeyFormat d (RegisterPeerParam.PeerPubkey params)
    then (Inl (Err ''registerCandidate, invalid peer pubkey''), st)
    else
    (case DecodeString (RegisterPeerParam.PeerPubkey params) of
       None \<Rightarrow> (Inl (Err ''registerCandidate, peerPubkey format error''), st)
     | Some peerPubkeyPrefix \<Rightarrow>
    (case BLACK_LIST st peerPubkeyPrefix of
       Unreadable \<Rightarrow> (Inl (Err ''registerCandidate, get BlackList error''), st)
     | Present blackList \<Rightarrow> (Inl (Err ''registerCandidate, this Peer is in BlackList''), st)
     | Absent \<Rightarrow>
    (case GetPeeApply st (RegisterPeerParam.PeerPubkey params) of
       Inl e \<Rightarrow> (Inl (Wrapped ''registerCandidate, GetPeeApply error'' e), st)
     | Inr (Some peer) \<Rightarrow> (Inl (Err ''registerCandidate, peer already applied''), st)
     | Inr None \<Rightarrow>
    (case GetView st of
       Inl e \<Rightarrow> (Inl (Wrapped ''blackNode, get view error'' e), st)
     | Inr view \<Rightarrow>
    (case GetPeerPoolMap st view of
       Inl e \<Rightarrow> (Inl (Wrapped ''registerCandidate, get peerPoolMap error'' e), st)
     | Inr peerPoolMap \<Rightarrow>
    (case map_of peerPoolMap (RegisterPeerParam.PeerPubkey params) of
       Some _ \<Rightarrow> (Inl (Err ''registerCandidate, peerPubkey is already in peerPoolMap''), st)
     | None \<Rightarrow>
    (case putPeerApply st params of
       Inl e \<Rightarrow> (Inl (Wrapped ''registerCandidate, put putPeerApply error'' e), st)
     | Inr st1 \<Rightarrow>
    (case appCallTransferOnt d st1 address (NodeManagerContractAddress d)
            (RegisterPeerParam.Pos params) of
       Inl e \<Rightarrow> (Inl (Wrapped ''registerCandidate, ont transfer error'' e), st1)
     | Inr st2 \<Rightarrow> (Inr True, st2))))))))))))"


definition ApproveCandidate ::
  "gov_deps \<Rightarrow> GovService \<Rightarrow> store \<Rightarrow> (error + bool) \<times> store" where
  "ApproveCandidate d native st =
    (case deserPeerParam d (GetInput native) of
       None \<Rightarrow> (Inl (Err ''approveCandidate, contract params deserialize error''), st)
     | Some params \<Rightarrow>
    (case AddressFromBookkeepers d of
       Inl e \<Rightarrow> (Inl e, st)
     | Inr operatorAddress \<Rightarrow>
    (case ValidateOwner native operatorAddress of
       Inl e \<Rightarrow> (Inl (Wrapped ''approveCandidate, checkWitness error'' e), st)
     | Inr _ \<Rightarrow>
    (case GetPeeApply st (PeerParam.PeerPubkey params) of
       Inl e \<Rightarrow> (Inl (Wrapped ''approveCandidate, GetPeeApply error'' e), st)
     | Inr None \<Rightarrow> (Inl (Err ''approveCandidate, peer is not applied''), st)
     | Inr (Some peer) \<Rightarrow>
    let peerPoolItem = \<lparr>Index = 0,
                        PeerPoolItem.PeerPubkey = RegisterPeerParam.PeerPubkey peer,
                        PeerPoolItem.Address = RegisterPeerParam.Address peer,
                        Status = CandidateStatus,
                        PeerPoolItem.Pos = RegisterPeerParam.Pos peer,
                        LockPos = 0\<rparr> in
    (case getGlobalParam st of
       Inl e \<Rightarrow> (Inl (Wrapped ''approveCandidate, getGlobalParam error'' e), st)
     | Inr globalParam \<Rightarrow>
    if PeerPoolItem.Pos peerPoolItem < ucast (MinInitStake globalParam)
    then (Inl (Err ''approveCandidate, init Pos must >= MinInitStake''), st)
    else
    (case DecodeString (RegisterPeerParam.PeerPubkey peer) of
       None \<Rightarrow> (Inl (Err ''approveCandidate, peerPubkey format error''), st)
     | Some peerPubkeyPrefix \<Rightarrow>
    (case (case PEER_INDEX st peerPubkeyPrefix of
             Unreadable \<Rightarrow> Inl (Err ''approveCandidate, get indexBytes error'')
           | Present index \<Rightarrow> Inr (peerPoolItem\<lparr>Index := index\<rparr>, st)
           | Absent \<Rightarrow>
              (case getCandidateIndex st of
                 Inl e \<Rightarrow> Inl (Wrapped ''approveCandidate, get candidateIndex error'' e)
               | Inr candidateIndex \<Rightarrow>
                  let newCandidateIndex = candidateIndex + 1 in
                  (case putCandidateIndex st newCandidateIndex of
                     Inl e \<Rightarrow> Inl (Wrapped ''approveCandidate, put candidateIndex error'' e)
                   | Inr st1 \<Rightarrow>
                      Inr (peerPoolItem\<lparr>Index := candidateIndex\<rparr>,
                           st1\<lparr>PEER_INDEX :=
                                 (PEER_INDEX st1)(peerPubkeyPrefix := Present candidateIndex)\<rparr>))))
     of
       Inl e \<Rightarrow> (Inl e, st)
     | Inr (peerPoolItem, st2) \<Rightarrow>
    (case GetView st2 of
       Inl e \<Rightarrow> (Inl (Wrapped ''approveCandidate, get view error'' e), st2)
     | Inr view \<Rightarrow>
    (case GetPeerPoolMap st2 view of
       Inl e \<Rightarrow> (Inl (Wrapped ''approveCandidate, get peerPoolMap error'' e), st2)
     | Inr peerPoolMap \<Rightarrow>
    let num = activeNum peerPoolMap in
    if num \<ge> unat (CandidateNum globalParam)
    then (Inl (Err ''approveCandidate, num of candidate node is full''), st2)
    else
    let peerPoolItem = peerPoolItem\<lparr>Status := CandidateStatus\<rparr>;
        peerPoolMap = AList.update (PeerParam.PeerPubkey params) peerPoolItem peerPoolMap in
    (case putPeerPoolMap st2 peerPoolMap view of
       Inl e \<Rightarrow> (Inl (Wrapped ''approveCandidate, put peerPoolMap error'' e), st2)
     | Inr st3 \<Rightarrow> (Inr True, st3)))))))))))"


definition WhiteNode ::
  "gov_deps \<Rightarrow> GovService \<Rightarrow> store \<Rightarrow> (error + bool) \<times> store" where
  "WhiteNode d native st =
    (case deserPeerParam d (GetInput native) of
       None \<Rightarrow> (Inl (Err ''whiteNode, contract params deserialize error''), st)
     | Some params \<Rightarrow>
    (case AddressFromBookkeepers d of
       Inl e \<Rightarrow> (Inl e, st)
     | Inr operatorAddress \<Rightarrow>
    (case ValidateOwner native operatorAddress of
       Inl e \<Rightarrow> (Inl (Wrapped ''whiteNode, checkWitness error'' e), st)
     | Inr _ \<Rightarrow>
    (case DecodeString (PeerParam.PeerPubkey params) of
       None \<Rightarrow> (Inl (Err ''whiteNode, peerPubkey format error''), st)
     | Some peerPubkeyPrefix \<Rightarrow>
    (case BLACK_LIST st peerPubkeyPrefix of
       Unreadable \<Rightarrow> (Inl (Err ''whiteNode, get BlackList error''), st)
     | Absent \<Rightarrow> (Inl (Err ''whiteNode, this Peer is not in BlackList''), st)
     | Present blackListBytes \<Rightarrow>
        (Inr True, st\<lparr>BLACK_LIST := (BLACK_LIST st)(peerPubkeyPrefix := Absent)\<rparr>))))))"

definition QuitNode ::
  "gov_deps \<Rightarrow> GovService \<Rightarrow> store \<Rightarrow> (error + bool) \<times> store" where
  "QuitNode d native st =
    (case deserPeerParam2 d (GetInput native) of
       None \<Rightarrow> (Inl (Err ''quitNode, contract params deserialize error''), st)
     | Some params \<Rightarrow>
    (case AddressParseFromBytes (PeerParam2.Address params) of
       Inl e \<Rightarrow> (Inl (Wrapped ''quitNode, common.AddressParseFromBytes error'' e), st)
     | Inr address \<Rightarrow>
    (case ValidateOwner native address of
       Inl e \<Rightarrow> (Inl (Wrapped ''quitNode, checkWitness error'' e), st)
     | Inr _ \<Rightarrow>
    (case GetView st of
       Inl e \<Rightarrow> (Inl (Wrapped ''quitNode, get view error'' e), st)
     | Inr view \<Rightarrow>
    (case GetPeerPoolMap st view of
       Inl e \<Rightarrow> (Inl (Wrapped ''quitNode, get peerPoolMap error'' e), st)
     | Inr peerPoolMap \<Rightarrow>
    (case map_of peerPoolMap (PeerParam2.PeerPubkey params) of
       None \<Rightarrow> (Inl (Err ''quitNode, peerPubkey is not in peerPoolMap''), st)
     | Some peerPoolItem \<Rightarrow>
    if PeerPoolItem.Status peerPoolItem \<noteq> ConsensusStatus \<and>
       PeerPoolItem.Status peerPoolItem \<noteq> CandidateStatus
    then (Inl (Err ''quitNode, peerPubkey is not CandidateStatus or ConsensusStatus''), st)
    else
    if PeerParam2.Address params \<noteq> PeerPoolItem.Address peerPoolItem
    then (Inl (Err ''quitNode, peerPubkey is not registered by this address''), st)
    else
    (case GetConfig st of
       Inl e \<Rightarrow> (Inl (Wrapped ''quitNode, get config error'' e), st)
     | Inr config0 \<Rightarrow>
    (case getPreConfig st of
       Inl e \<Rightarrow> (Inl (Wrapped ''quitNode, get preConfig error'' e), st)
     | Inr preConfig \<Rightarrow>
    let config = (if SetView preConfig = view then PreConfig.Configuration preConfig
                  else Some config0);
        num = activeNum peerPoolMap in
    (case config of
       None \<Rightarrow> (Inl (Panic ''invalid memory address or nil pointer dereference''), st)
     | Some config \<Rightarrow>
    if num \<le> unat (Configuration.K config)
    then (Inl (Err ''quitNode, num of peers is less than K''), st)
    else
    let peerPoolItem = peerPoolItem\<lparr>Status := QuitingStatus\<rparr>;
        peerPoolMap = AList.update (PeerParam2.PeerPubkey params) peerPoolItem peerPoolMap in
    (case putPeerPoolMap st peerPoolMap view of
       Inl e \<Rightarrow> (Inl (Wrapped ''quitNode, put peerPoolMap error'' e), st)
     | Inr st1 \<Rightarrow> (Inr True, st1)))))))))))"

definition UpdateConfig ::
  "gov_deps \<Rightarrow> GovService \<Rightarrow> store \<Rightarrow> (error + bool) \<times> store" where
  "UpdateConfig d native st =
    (case AddressFromBookkeepers d of
       Inl e \<Rightarrow> (Inl e, st)
     | Inr operatorAddress \<Rightarrow>
    (case ValidateOwner native operatorAddress of
       Inl e \<Rightarrow> (Inl (Wrapped ''updateConfig, checkWitness error'' e), st)
     | Inr _ \<Rightarrow>
    (case deserConfiguration d (GetInput native) of
       None \<Rightarrow> (Inl (Err ''updateConfig, deserialize configuration error''), st)
     | Some configuration \<Rightarrow>
    (case GetView st of
       Inl e \<Rightarrow> (Inl (Wrapped ''getView, get view error'' e), st)
     | Inr view \<Rightarrow>
    (case GetPeerPoolMap st view of
       Inl e \<Rightarrow> (Inl (Wrapped ''getPeerPoolMap, get peerPoolMap error'' e), st)
     | Inr peerPoolMap \<Rightarrow>
    let candidateNum = activeNum peerPoolMap in
    if Configuration.C configuration = 0
    then (Inl (Err ''updateConfig. C can not be 0 in config''), st)
    else if unat (Configuration.K configuration) > candidateNum
    then (Inl (Err ''updateConfig. K can not be larger than num of candidate peer in config''), st)
    else if Configuration.L configuration < 16 * Configuration.K configuration
    then (Inl (Err ''updateConfig. L can not be less than 16*K and K must be times of L in config''), st)
    else if Configuration.K configuration = 0
    then (Inl (Panic ''integer divide by zero''), st)
    else if Configuration.L configuration mod Configuration.K configuration \<noteq> 0
    then (Inl (Err ''updateConfig. L can not be less than 16*K and K must be times of L in config''), st)
    else if Configuration.K configuration < 2 * Configuration.C configuration + 1
    then (Inl (Err ''updateConfig. K can not be less than 2*C+1 in config''), st)
    else if Configuration.N configuration < Configuration.K configuration \<or>
            Configuration.K configuration < 7
    then (Inl (Err ''updateConfig. config not match N >= K >= 7''), st)
    else if BlockMsgDelay configuration < 5000
    then (Inl (Err ''updateConfig. BlockMsgDelay must >= 5000''), st)
    else if HashMsgDelay configuration < 5000
    then (Inl (Err ''updateConfig. HashMsgDelay must >= 5000''), st)
    else if PeerHandshakeTimeout configuration < 10
    then (Inl (Err ''updateConfig. PeerHandshakeTimeout must >= 10''), st)
    else if MaxBlockChangeView configuration < 10000
    then (Inl (Err ''updateConfig. MaxBlockChangeView must >= 10000''), st)
    else
    let preConfig = \<lparr>Configuration = Some configuration, SetView = view\<rparr> in
    (case putPreConfig st preConfig of
       Inl e \<Rightarrow> (Inl (Wrapped ''putPreConfig, put preConfig error'' e), st)
     | Inr st1 \<Rightarrow> (Inr True, st1)))))))"

definition UpdateGlobalParam ::
  "gov_deps \<Rightarrow> GovService \<Rightarrow> store \<Rightarrow> (error + bool) \<times> store" where
  "UpdateGlobalParam d native st =
    (case AddressFromBookkeepers d of
       Inl e \<Rightarrow> (Inl e, st)
     | Inr operatorAddress \<Rightarrow>
    (case ValidateOwner native operatorAddress of
       Inl e \<Rightarrow> (Inl (Wrapped ''updateGlobalParam, checkWitness error'' e), st)
     | Inr _ \<Rightarrow>
    (case GetConfig st of
       Inl e \<Rightarrow> (Inl (Wrapped ''getConfig, get config error'' e), st)
     | Inr config \<Rightarrow>
    (case deserGlobalParam d (GetInput native) of
       None \<Rightarrow> (Inl (Err ''updateGlobalParam, deserialize globalParam error''), st)
     | Some globalParam \<Rightarrow>
    if CandidateNum globalParam < 4 * Configuration.K config
    then (Inl (Err ''updateGlobalParam, CandidateNum must >= 4*K''), st)
    else if MinInitStake globalParam < 1
    then (Inl (Err ''updateGlobalParam, MinInitStake must >= 1''), st)
    else
    (case putGlobalParam st globalParam of
       Inl e \<Rightarrow> (Inl (Wrapped ''updateGlobalParam, put globalParam error'' e), st)
     | Inr st1 \<Rightarrow> (Inr True, st1))))))"

definition AddPos ::
  "gov_deps \<Rightarrow> GovService \<Rightarrow> store \<Rightarrow> (error + bool) \<times> store" where
  "AddPos d native st =
    (case deserRegisterPeerParam d (GetInput native) of
       None \<Rightarrow> (Inl (Err ''addPos, contract params deserialize error''), st)
     | Some params \<Rightarrow>
    (case AddressParseFromBytes (RegisterPeerParam.Address params) of
       Inl e \<Rightarrow> (Inl (Wrapped ''addPos, common.AddressParseFromBytes error'' e), st)
     | Inr address \<Rightarrow>
    (case ValidateOwner native address of
       Inl e \<Rightarrow> (Inl (Wrapped ''addPos, checkWitness error'' e), st)
     | Inr _ \<Rightarrow>
    (case GetView st of
       Inl e \<Rightarrow> (Inl (Wrapped ''addPos, get view error'' e), st)
     | Inr view \<Rightarrow>
    (case GetPeerPoolMap st view of
       Inl e \<Rightarrow> (Inl (Wrapped ''addPos, get peerPoolMap error'' e), st)
     | Inr peerPoolMap \<Rightarrow>
    (case map_of peerPoolMap (RegisterPeerParam.PeerPubkey params) of
       None \<Rightarrow> (Inl (Err ''addPos, peerPubkey is not in peerPoolMap''), st)
     | Some peerPoolItem \<Rightarrow>
    if PeerPoolItem.Status peerPoolItem \<noteq> ConsensusStatus \<and>
       PeerPoolItem.Status peerPoolItem \<noteq> CandidateStatus
    then (Inl (Err ''addPos, peerPubkey is not CandidateStatus or ConsensusStatus''), st)
    else
    if RegisterPeerParam.Address params \<noteq> PeerPoolItem.Address peerPoolItem
    then (Inl (Err ''addPos, peerPubkey is not registered by this address''), st)
    else
    let peerPoolItem = peerPoolItem\<lparr>PeerPoolItem.Pos :=
                         PeerPoolItem.Pos peerPoolItem + RegisterPeerParam.Pos params\<rparr>;
        peerPoolMap = AList.update (RegisterPeerParam.PeerPubkey params) peerPoolItem peerPoolMap
    in
    (case putPeerPoolMap st peerPoolMap view of
       Inl e \<Rightarrow> (Inl (Wrapped ''addPos, put peerPoolMap error'' e), st)
     | Inr st1 \<Rightarrow>
    (case appCallTransferOnt d st1 address (NodeManagerContractAddress d)
            (RegisterPeerParam.Pos params) of
       Inl e \<Rightarrow> (Inl (Wrapped ''addPos, ont transfer error'' e), st1)
     | Inr st2 \<Rightarrow> (Inr True, st2)))))))))"

definition ReducePos ::
  "gov_deps \<Rightarrow> GovService \<Rightarrow> store \<Rightarrow> (error + bool) \<times> store" where
  "ReducePos d native st =
    (case deserRegisterPeerParam d (GetInput native) of
       None \<Rightarrow> (Inl (Err ''reducePos, contract params deserialize error''), st)
     | Some params \<Rightarrow>
    (case AddressParseFromBytes (RegisterPeerParam.Address params) of
       Inl e \<Rightarrow> (Inl (Wrapped ''reducePos, common.AddressParseFromBytes error'' e), st)
     | Inr address \<Rightarrow>
    (case ValidateOwner native address of
       Inl e \<Rightarrow> (Inl (Wrapped ''reducePos, checkWitness error'' e), st)
     | Inr _ \<Rightarrow>
    (case GetView st of
       Inl e \<Rightarrow> (Inl (Wrapped ''reducePos, get view error'' e), st)
     | Inr view \<Rightarrow>
    (case GetPeerPoolMap st view of
       Inl e \<Rightarrow> (Inl (Wrapped ''reducePos, get peerPoolMap error'' e), st)
     | Inr peerPoolMap \<Rightarrow>
    (case map_of peerPoolMap (RegisterPeerParam.PeerPubkey params) of
       None \<Rightarrow> (Inl (Err ''reducePos, peerPubkey is not in peerPoolMap''), st)
     | Some peerPoolItem \<Rightarrow>
    if PeerPoolItem.Status peerPoolItem \<noteq> ConsensusStatus \<and>
       PeerPoolItem.Status peerPoolItem \<noteq> CandidateStatus
    then (Inl (Err ''reducePos, peerPubkey is not CandidateStatus or ConsensusStatus''), st)
    else
    if RegisterPeerParam.Address params \<noteq> PeerPoolItem.Address peerPoolItem
    then (Inl (Err ''reducePos, peerPubkey is not registered by this address''), st)
    else
    let peerPoolItem = peerPoolItem\<lparr>PeerPoolItem.Pos :=
                         PeerPoolItem.Pos peerPoolItem - RegisterPeerParam.Pos params\<rparr>;
        peerPoolItem = peerPoolItem\<lparr>LockPos :=
                         LockPos peerPoolItem + RegisterPeerParam.Pos params\<rparr>;
        peerPoolMap = AList.update (RegisterPeerParam.PeerPubkey params) peerPoolItem peerPoolMap
    in
    (case putPeerPoolMap st peerPoolMap view of
       Inl e \<Rightarrow> (Inl (Wrapped ''reducePos, put peerPoolMap error'' e), st)
     | Inr st1 \<Rightarrow> (Inr True, st1))))))))"

text \<open>A sequence of \<open>ApproveCandidate\<close> calls, each with its own call context.\<close>

fun ApproveCandidates :: "gov_deps \<Rightarrow> GovService list \<Rightarrow> store \<Rightarrow> store" where
  "ApproveCandidates d [] st = st"
| "ApproveCandidates d (native # rest) st =
     ApproveCandidates d rest (snd (ApproveCandidate d native st))"

text \<open>The number of Candidate or Consensus peers in the pool of the current view.\<close>

definition currentActiveNum :: "store \<Rightarrow> nat" where
  "currentActiveNum st =
     (case GetView st of
        Inl e \<Rightarrow> 0
      | Inr view \<Rightarrow> (case GetPeerPoolMap st view of Inl e \<Rightarrow> 0 | Inr peerPoolMap \<Rightarrow> activeNum peerPoolMap))"

subsection \<open>A concrete governance state\<close>

text \<open>
  A small instance used to run the handlers: parameters are read off the input bytes (a
  public key is the hex string of one byte, an address is one byte repeated 20 times), the
  operator is the address of byte 255, the asset contract refuses any transfer above 100,
  and the store is at view 3 with \<open>n\<close> Consensus peers (keys \<open>01\<close>, \<open>02\<close>, ...; peer \<open>i\<close>
  owned by the address of byte \<open>i\<close>, stake 100) and an active configuration with the given
  \<open>K\<close>; nothing is staged.
\<close>

definition example_deserRegisterPeerParam :: "bytes \<Rightarrow> RegisterPeerParam option" where
  "example_deserRegisterPeerParam input =
     (case input of
        [k, a, p] \<Rightarrow> Some \<lparr>RegisterPeerParam.PeerPubkey = EncodeToString [k],
                            RegisterPeerParam.Address = replicate 20 a,
                            RegisterPeerParam.Pos = ucast p\<rparr>
      | _ \<Rightarrow> None)"

definition example_deserPeerParam :: "bytes \<Rightarrow> PeerParam option" where
  "example_deserPeerParam input =
     (case input of [k] \<Rightarrow> Some \<lparr>PeerParam.PeerPubkey = EncodeToString [k]\<rparr> | _ \<Rightarrow> None)"

definition example_deserPeerParam2 :: "bytes \<Rightarrow> PeerParam2 option" where
  "example_deserPeerParam2 input =
     (case input of
        [k, a] \<Rightarrow> Some \<lparr>PeerParam2.PeerPubkey = EncodeToString [k],
                         PeerParam2.Address = replicate 20 a\<rparr>
      | _ \<Rightarrow> None)"

definition example_deserConfiguration :: "bytes \<Rightarrow> Configuration option" where
  "example_deserConfiguration input =
     (case input of
        [n, c, k, l] \<Rightarrow> Some \<lparr>N = ucast n, C = ucast c, K = ucast k, L = ucast l,
                               BlockMsgDelay = 5000, HashMsgDelay = 5000,
                               PeerHandshakeTimeout = 10, MaxBlockChangeView = 10000\<rparr>
      | _ \<Rightarrow> None)"

definition example_deserGlobalParam :: "bytes \<Rightarrow> GlobalParam option" where
  "example_deserGlobalParam input =
     (case input of
        [m, c] \<Rightarrow> Some \<lparr>MinInitStake = ucast m, CandidateNum = ucast c\<rparr>
      | _ \<Rightarrow> None)"

definition example_transferOnt ::
  "(bytes \<times> bytes \<times> 64 word) list \<Rightarrow> bytes \<Rightarrow> bytes \<Rightarrow> 64 word \<Rightarrow> bool" where
  "example_transferOnt done from to amount = (amount \<le> 100)"

definition example_deps :: gov_deps where
  "example_deps =
     \<lparr>deserRegisterPeerParam = example_deserRegisterPeerParam,
      deserPeerParam = example_deserPeerParam,
      deserPeerParam2 = example_deserPeerParam2,
      deserConfiguration = example_deserConfiguration,
      deserGlobalParam = example_deserGlobalParam,
      ValidatePeerPubKeyFormat = (\<lambda>peerPubkey. length peerPubkey = 2),
      AddressFromBookkeepers = Inr (replicate 20 255),
      NodeManagerContractAddress = replicate 20 7,
      transferOnt = example_transferOnt\<rparr>"

definition example_native :: "bytes \<Rightarrow> 8 word \<Rightarrow> GovService" where
  "example_native input signer =
     \<lparr>GetInput = input, CheckWitness = (\<lambda>address. address = replicate 20 signer)\<rparr>"

definition example_peer :: "nat \<Rightarrow> string \<times> PeerPoolItem" where
  "example_peer i =
     (EncodeToString [of_nat i],
      \<lparr>Index = of_nat i,
       PeerPoolItem.PeerPubkey = EncodeToString [of_nat i],
       PeerPoolItem.Address = replicate 20 (of_nat i),
       Status = ConsensusStatus,
       PeerPoolItem.Pos = 100,
       LockPos = 0\<rparr>)"

definition example_pool :: "nat \<Rightarrow> PeerPoolMap" where
  "example_pool n = map example_peer [1..<Suc n]"

definition example_store :: "nat \<Rightarrow> 32 word \<Rightarrow> store" where
  "example_store n k =
     \<lparr>GOVERNANCE_VIEW = Present \<lparr>View = 3, ViewHeight = 0, ViewTxHash = []\<rparr>,
      VBFT_CONFIG = Present \<lparr>N = k, C = 2, K = k, L = 16 * k,
                             BlockMsgDelay = 5000, HashMsgDelay = 5000,
                             PeerHandshakeTimeout = 10, MaxBlockChangeView = 10000\<rparr>,
      PRE_CONFIG = Absent,
      CANDIDITE_INDEX = Present (of_nat (Suc n)),
      PEER_APPLY = (\<lambda>peerPubkeyPrefix. Absent),
      PEER_POOL = (\<lambda>view. if view = 3 then Present (example_pool n) else Absent),
      PEER_INDEX = (\<lambda>peerPubkeyPrefix. Absent),
      BLACK_LIST = (\<lambda>peerPubkeyPrefix. Absent),
      GLOBAL_PARAM = Present \<lparr>MinInitStake = 1, CandidateNum = 49\<rparr>,
      ONT_TRANSFERS = []\<rparr>"

section \<open>Cross-chain manager, Bitcoin handler (btc.go)\<close>

record TxIn =
  PreviousOutPointHash :: bytes
  PreviousOutPointIndex :: "32 word"

record TxOut =
  Value :: "64 word"
  PkScript :: bytes

record MsgTx =
  TxIns :: "TxIn list"
  TxOuts :: "TxOut list"

record MsgMerkleBlock =
  Header :: bytes
  Transactions :: "32 word"
  Hashes :: "bytes list"
  Flags :: bytes

record BlockHeader =
  MerkleRoot :: bytes

record SideChain =
  BlocksToWait :: "64 word"

record targetChainParam =
  ChainId :: "64 word"
  Addr :: bytes
  ParamValue :: "64 word"

record EntranceParam =
  SourceChainID :: "64 word"
  Height :: "32 word"
  Proof :: string
  TxData :: string

record NotifyEventInfo =
  ContractAddress :: bytes
  States :: "string list"

record NativeService =
  Input :: bytes
  CacheDB :: cachedb
  Notifications :: "NotifyEventInfo list"
  PreExec :: bool

record MakeTxParam =
  FromChainID :: "64 word"
  FromContractAddress :: string
  ToChainID :: "64 word"
  ToAddress :: string
  Amount :: int

text \<open>
  Everything \<open>btc.go\<close> calls that lives outside it: the SPV rest client, the side-chain
  manager, the btcd/bchd wire codecs and merkle-block extraction, and the package's own
  helpers and constants (\<open>checkTxOutputs\<close>, \<open>resolve\<close>, \<open>buildScript\<close>, \<open>FEE\<close>, the key
  prefixes). \<open>None\<close> is the collaborator's error return.
\<close>

record btc_env =
  GetCurrentHeightFromSpv :: "32 word option"
  GetSideChain :: "64 word \<Rightarrow> SideChain option"
  GetHeaderFromSpv :: "32 word \<Rightarrow> BlockHeader option"
  BtcDecode :: "bytes \<Rightarrow> MsgTx option"
  BchDecode :: "bytes \<Rightarrow> MsgMerkleBlock option"
  TxHash :: "MsgTx \<Rightarrow> bytes"
  Key_prefix_BTC :: bytes
  CrossChainManagerContractAddress :: bytes
  checkTxOutputs :: "MsgTx \<Rightarrow> bool \<times> error option"
  resolve :: "64 word \<Rightarrow> TxOut \<Rightarrow> error + targetChainParam"
  ExtractMatches :: "MsgMerkleBlock \<Rightarrow> bytes option"
  BadTree :: "MsgMerkleBlock \<Rightarrow> bool"
  GetMatches :: "MsgMerkleBlock \<Rightarrow> bytes list"
  deserEntranceParam :: "bytes \<Rightarrow> EntranceParam option"
  ToBase58 :: "bytes \<Rightarrow> string"
  GetAssetContractAddress :: "64 word \<Rightarrow> 64 word \<Rightarrow> string \<Rightarrow> error + string"
  buildScript :: "error + bytes"
  NewAddressScriptHash :: "bytes \<Rightarrow> error + string"
  GetUtxosFromSpv :: "string \<Rightarrow> 64 word \<Rightarrow> 64 word \<Rightarrow> bool \<Rightarrow> error + TxIn list \<times> 64 word"
  FEE :: "64 word"
  PayToAddrScript :: "string \<Rightarrow> error + bytes"
  PayToScriptHashScript :: "bytes \<Rightarrow> error + bytes"
  BtcEncode :: "MsgTx \<Rightarrow> error + bytes"
  BTC_TX_PREFIX :: bytes

definition NotConfirmed :: error where
  "NotConfirmed = Err ''verifyBtcTx, transaction is not confirmed''"

definition AlreadyExist :: error where
  "AlreadyExist = Err ''verifyBtcTx, transaction already exist''"

text \<open>
  \<open>verifyBtcTx\<close>. \<open>besth\<close> and \<open>height\<close> are \<open>uint32\<close>, so \<open>besth - height\<close> wraps;
  \<open>sideChain.BlocksToWait - 1\<close> wraps in its own width and \<open>uint32(...)\<close> truncates.
  The only store write is the last statement.
\<close>

definition verifyBtcTx ::
  "btc_env \<Rightarrow> cachedb \<Rightarrow> bytes \<Rightarrow> bytes \<Rightarrow> 32 word \<Rightarrow> 64 word
     \<Rightarrow> (error + bool \<times> targetChainParam) \<times> cachedb" where
  "verifyBtcTx cli db proof tx height btcChainID =
    (case GetCurrentHeightFromSpv cli of
       None \<Rightarrow> (Inl (Err ''verifyBtcTx, failed to get current height from spv''), db)
     | Some besth \<Rightarrow>
    (case GetSideChain cli btcChainID of
       None \<Rightarrow> (Inl (Err ''verifyBtcTx, side_chain_manager.GetSideChain error''), db)
     | Some sideChain \<Rightarrow>
    if besth - height < ucast (BlocksToWait sideChain - 1) then (Inl NotConfirmed, db)
    else
    (case BtcDecode cli tx of
       None \<Rightarrow> (Inl (Err ''verifyBtcTx, failed to decode the transaction''), db)
     | Some mtx \<Rightarrow>
    (case BchDecode cli proof of
       None \<Rightarrow> (Inl (Err ''verifyBtcTx, failed to decode proof''), db)
     | Some mb \<Rightarrow>
    let txid = TxHash cli mtx;
        isExist = (\<exists>hash \<in> set (Hashes mb). hash = txid)
    in
    if \<not> isExist then (Inl (Err ''verifyBtcTx, transaction not found in proof''), db)
    else
    let key = ConcatKey (CrossChainManagerContractAddress cli) [Key_prefix_BTC cli, txid] in
    (case Get db key of
       Inl e \<Rightarrow> (Inl (Wrapped ''verifyBtcTx, failed to get verified transaction'' e), db)
     | Inr val \<Rightarrow>
    if val = Some [1] then (Inl AlreadyExist, db)
    else
    (case checkTxOutputs cli mtx of (ok, err) \<Rightarrow>
    if ok \<noteq> True \<or> err \<noteq> None then (Inl (Err ''verifyBtcTx, wrong outputs''), db)
    else
    (case TxOuts mtx of
       out0 # out1 # _ \<Rightarrow>
        (case resolve cli (Value out0) out1 of
           Inl e \<Rightarrow> (Inl (Wrapped ''verifyBtcTx, failed to resolve parameter'' e), db)
         | Inr param \<Rightarrow>
        let merkleRootCalc = ExtractMatches cli mb in
        if merkleRootCalc = None \<or> BadTree cli mb \<or> length (GetMatches cli mb) = 0
        then (Inl (Err ''verifyBtcTx, bad merkle tree''), db)
        else
        (case GetHeaderFromSpv cli height of
           None \<Rightarrow> (Inl (Err ''verifyBtcTx, failed to get header from spv client''), db)
         | Some header \<Rightarrow>
        if merkleRootCalc \<noteq> Some (MerkleRoot header)
        then (Inl (Err ''verifyBtcTx, merkle root not equal''), db)
        else (Inr (True, param), Put db key [1])))
     | _ \<Rightarrow> (Inl (Panic ''index out of range''), db))))))))"

text \<open>\<open>BTCHandler.Verify\<close>: decodes the entrance parameters and calls \<open>verifyBtcTx\<close>.\<close>

definition BTC_ADDRESS :: string where
  "BTC_ADDRESS = ''btc''"

definition Verify :: "btc_env \<Rightarrow> NativeService \<Rightarrow> (error + MakeTxParam) \<times> NativeService" where
  "Verify cli service =
    (case deserEntranceParam cli (Input service) of
       None \<Rightarrow> (Inl (Err ''btc Verify, contract params deserialize error''), service)
     | Some params \<Rightarrow>
    if Proof params = [] \<or> TxData params = []
    then (Inl (Err ''btc Verify, input data can't be empty''), service)
    else
    (case DecodeString (TxData params) of
       None \<Rightarrow> (Inl (Err ''btc Verify, failed to decode transaction from string to bytes''), service)
     | Some tx \<Rightarrow>
    (case DecodeString (Proof params) of
       None \<Rightarrow> (Inl (Err ''btc Verify, failed to decode proof from string to bytes''), service)
     | Some proof \<Rightarrow>
    (case verifyBtcTx cli (CacheDB service) proof tx (Height params) (SourceChainID params) of
       (Inl err, db) \<Rightarrow>
         (Inl (Wrapped ''btc Verify, failed to verify'' err), service\<lparr>CacheDB := db\<rparr>)
     | (Inr (ok, p), db) \<Rightarrow>
        if ok \<noteq> True
        then (Inl (Err ''btc Verify, verify not passed''), service\<lparr>CacheDB := db\<rparr>)
        else (Inr \<lparr>FromChainID = SourceChainID params,
                   FromContractAddress = BTC_ADDRESS,
                   ToChainID = ChainId p,
                   ToAddress = ToBase58 cli (Addr p),
                   Amount = sint (ParamValue p)\<rparr>,
              service\<lparr>CacheDB := db\<rparr>)))))"

text \<open>\<open>btcutil.MaxSatoshi\<close> = 21e6 * 1e8.\<close>

definition MaxSatoshi :: int where
  "MaxSatoshi = 2100000000000000"

text \<open>
  The validation loop of \<open>makeBtcTx\<close> over the \<open>map[string]int64\<close>, visited in the order
  of the association list. The running total \<open>amountSum\<close> is an \<open>int64\<close>: \<open>+\<close> wraps.
\<close>

fun sumAmounts :: "(string \<times> 64 word) list \<Rightarrow> 64 word \<Rightarrow> error + 64 word" where
  "sumAmounts [] amountSum = Inr amountSum"
| "sumAmounts ((i, a) # rest) amountSum =
     (if sint a \<le> 0 \<or> sint a > MaxSatoshi then Inl (Err ''makeBtcTx, wrong amount'')
      else sumAmounts rest (amountSum + a))"

definition SumExceeds :: error where
  "SumExceeds = Err ''makeBtcTx, sum of amounts exceeds the MaxSatoshi''"

definition NotEnoughUtxos :: error where
  "NotEnoughUtxos = Err ''makeBtcTx, not enough utxos: the change amount cannot be less than 0''"

definition UtxoNotFound :: error where
  "UtxoNotFound = Err ''makeBtcTx, utxo not found''"

text \<open>
  Modelled from the spec: \<open>getUnsignedTx\<close> is not in the given sources. Spec 4.2 step 6:
  one input per selected output, one output per destination address, one change output
  back to the custody address if \<open>change > 0\<close>.
\<close>

fun destOutputs :: "btc_env \<Rightarrow> (string \<times> 64 word) list \<Rightarrow> error + TxOut list" where
  "destOutputs cli [] = Inr []"
| "destOutputs cli ((addr, a) # rest) =
     (case PayToAddrScript cli addr of
        Inl e \<Rightarrow> Inl e
      | Inr pk \<Rightarrow>
        (case destOutputs cli rest of
           Inl e \<Rightarrow> Inl e
         | Inr outs \<Rightarrow> Inr (\<lparr>Value = a, PkScript = pk\<rparr> # outs)))"

definition getUnsignedTx ::
  "btc_env \<Rightarrow> TxIn list \<Rightarrow> (string \<times> 64 word) list \<Rightarrow> 64 word \<Rightarrow> bytes \<Rightarrow> error + MsgTx" where
  "getUnsignedTx cli txIns amounts change script =
     (case destOutputs cli amounts of
        Inl e \<Rightarrow> Inl e
      | Inr outs \<Rightarrow>
        if 0 < sint change then
          (case PayToScriptHashScript cli script of
             Inl e \<Rightarrow> Inl e
           | Inr pk \<Rightarrow> Inr \<lparr>TxIns = txIns, TxOuts = outs @ [\<lparr>Value = change, PkScript = pk\<rparr>]\<rparr>)
        else Inr \<lparr>TxIns = txIns, TxOuts = outs\<rparr>)"

text \<open>\<open>makeBtcTx\<close>. \<open>sum\<close> (here \<open>sumv\<close>), \<open>amountSum\<close>, \<open>FEE\<close> and \<open>change\<close> are \<open>int64\<close>.\<close>

definition makeBtcTx ::
  "btc_env \<Rightarrow> NativeService \<Rightarrow> (string \<times> 64 word) list \<Rightarrow> (error + unit) \<times> NativeService" where
  "makeBtcTx cli service amounts =
    (if length amounts = 0 then (Inl (Err ''makeBtcTx, input no amount''), service)
     else
     (case sumAmounts amounts 0 of
        Inl e \<Rightarrow> (Inl e, service)
      | Inr amountSum \<Rightarrow>
     if sint amountSum > MaxSatoshi then (Inl SumExceeds, service)
     else
     (case buildScript cli of
        Inl e \<Rightarrow> (Inl (Wrapped ''makeBtcTx, failed to get multiPk-script'' e), service)
      | Inr script \<Rightarrow>
     (case NewAddressScriptHash cli script of
        Inl e \<Rightarrow> (Inl (Wrapped ''makeBtcTx, failed to decode script to address'' e), service)
      | Inr addr \<Rightarrow>
     (case GetUtxosFromSpv cli addr amountSum (FEE cli) (PreExec service) of
        Inl e \<Rightarrow> (Inl (Wrapped ''makeBtcTx, failed to get utxo from spv'' e), service)
      | Inr (txIns, sumv) \<Rightarrow>
     if sint sumv \<le> 0 \<or> length txIns = 0 then (Inl UtxoNotFound, service)
     else
     let change = sumv - amountSum - FEE cli in
     if sint change < 0 then (Inl NotEnoughUtxos, service)
     else
     (case getUnsignedTx cli txIns amounts change script of
        Inl e \<Rightarrow> (Inl (Wrapped ''makeBtcTx, get rawtransaction fail'' e), service)
      | Inr mtx \<Rightarrow>
     (case BtcEncode cli mtx of
        Inl e \<Rightarrow> (Inl (Wrapped ''makeBtcTx, serialize rawtransaction fail'' e), service)
      | Inr buf \<Rightarrow>
        (Inr (),
         service\<lparr>CacheDB := Put (CacheDB service) (BTC_TX_PREFIX cli) buf,
                 Notifications := Notifications service @
                   [\<lparr>ContractAddress = CrossChainManagerContractAddress cli,
                     States = [''makeBtcTx'', EncodeToString buf]\<rparr>]\<rparr>))))))))"

text \<open>\<open>BTCHandler.MakeTransaction\<close>: a one-entry map, \<open>param.Amount.Int64()\<close> keeps the low 64 bits.\<close>

definition MakeTransaction ::
  "btc_env \<Rightarrow> NativeService \<Rightarrow> MakeTxParam \<Rightarrow> (error + unit) \<times> NativeService" where
  "MakeTransaction cli service param =
    (let amounts = [(ToAddress param, word_of_int (Amount param) :: 64 word)] in
     (case GetAssetContractAddress cli (FromChainID param) (ToChainID param)
             (FromContractAddress param) of
        Inl e \<Rightarrow>
          (Inl (Wrapped ''btc MakeTransaction, side_chain_manager.GetAssetContractAddress error'' e),
           service)
      | Inr destContractAddr \<Rightarrow>
     if destContractAddr \<noteq> ''btc''
     then (Inl (Err ''btc MakeTransaction, destContractAddr is not btc''), service)
     else
     (case makeBtcTx cli service amounts of
        (Inl e, service') \<Rightarrow>
          (Inl (Wrapped ''btc MakeTransaction, failed to make transaction'' e), service')
      | (Inr u, service') \<Rightarrow> (Inr (), service'))))"

subsection \<open>A concrete environment\<close>

text \<open>
  A small instance of the collaborators, used to run the functions on concrete inputs:
  a transaction decodes to two outputs, its hash is the script of the first one, a proof
  lists one hash and its merkle root is that hash, and the oracle's header has root \<open>[171]\<close>.
  The parameters are the oracle's current height, the side chain's \<open>BlocksToWait\<close> and the
  total of the unspent outputs the oracle returns.
\<close>

definition emptydb :: cachedb where
  "emptydb = (\<lambda>key. Absent)"

definition example_BtcDecode :: "bytes \<Rightarrow> MsgTx option" where
  "example_BtcDecode tx =
     (if tx = [] then None
      else Some \<lparr>TxIns = [],
                 TxOuts = [\<lparr>Value = 500000, PkScript = tx\<rparr>, \<lparr>Value = 0, PkScript = [106]\<rparr>]\<rparr>)"

definition example_TxHash :: "MsgTx \<Rightarrow> bytes" where
  "example_TxHash mtx = (case TxOuts mtx of [] \<Rightarrow> [] | out # _ \<Rightarrow> PkScript out)"

definition example_BchDecode :: "bytes \<Rightarrow> MsgMerkleBlock option" where
  "example_BchDecode proof =
     (if proof = [] then None
      else Some \<lparr>Header = [], Transactions = 1, Hashes = [proof], Flags = [1]\<rparr>)"

definition example_checkTxOutputs :: "MsgTx \<Rightarrow> bool \<times> error option" where
  "example_checkTxOutputs mtx = (length (TxOuts mtx) = 2, None)"

definition example_resolve :: "64 word \<Rightarrow> TxOut \<Rightarrow> error + targetChainParam" where
  "example_resolve v out = Inr \<lparr>ChainId = 2, Addr = PkScript out, ParamValue = v\<rparr>"

definition example_ExtractMatches :: "MsgMerkleBlock \<Rightarrow> bytes option" where
  "example_ExtractMatches mb = (case Hashes mb of [h] \<Rightarrow> Some h | _ \<Rightarrow> None)"

definition example_deser :: "bytes \<Rightarrow> EntranceParam option" where
  "example_deser input =
     (case input of
        [] \<Rightarrow> None
      | h # _ \<Rightarrow> Some \<lparr>SourceChainID = 1, Height = ucast h, Proof = ''ab'', TxData = ''ab''\<rparr>)"

definition example_utxos ::
  "64 word \<Rightarrow> string \<Rightarrow> 64 word \<Rightarrow> 64 word \<Rightarrow> bool \<Rightarrow> error + TxIn list \<times> 64 word" where
  "example_utxos utxoTotal addr amount fee pre =
     Inr ([\<lparr>PreviousOutPointHash = [1], PreviousOutPointIndex = 0\<rparr>], utxoTotal)"

definition example_PayToAddrScript :: "string \<Rightarrow> error + bytes" where
  "example_PayToAddrScript addr = Inr (map (\<lambda>c. of_nat (of_char c)) addr)"

definition example_BtcEncode :: "MsgTx \<Rightarrow> error + bytes" where
  "example_BtcEncode mtx = Inr (concat (map PkScript (TxOuts mtx)))"

definition example_cli :: "32 word \<Rightarrow> 64 word \<Rightarrow> 64 word \<Rightarrow> btc_env" where
  "example_cli besth btw utxoTotal =
     \<lparr>GetCurrentHeightFromSpv = Some besth,
      GetSideChain = (\<lambda>chainID. Some \<lparr>BlocksToWait = btw\<rparr>),
      GetHeaderFromSpv = (\<lambda>height. Some \<lparr>MerkleRoot = [171]\<rparr>),
      BtcDecode = example_BtcDecode,
      BchDecode = example_BchDecode,
      TxHash = example_TxHash,
      Key_prefix_BTC = [1, 2],
      CrossChainManagerContractAddress = [3],
      checkTxOutputs = example_checkTxOutputs,
      resolve = example_resolve,
      ExtractMatches = example_ExtractMatches,
      BadTree = (\<lambda>mb. False),
      GetMatches = Hashes,
      deserEntranceParam = example_deser,
      ToBase58 = (\<lambda>addr. ''dest''),
      GetAssetContractAddress = (\<lambda>fromChain toChain contract. Inr ''btc''),
      buildScript = Inr [82],
      NewAddressScriptHash = (\<lambda>script. Inr ''custody''),
      GetUtxosFromSpv = example_utxos utxoTotal,
      FEE = 1000,
      PayToAddrScript = example_PayToAddrScript,
      PayToScriptHashScript = (\<lambda>script. Inr script),
      BtcEncode = example_BtcEncode,
      BTC_TX_PREFIX = [98, 116, 99]\<rparr>"

definition example_service :: "bytes \<Rightarrow> NativeService" where
  "example_service input =
     \<lparr>Input = input, CacheDB = emptydb, Notifications = [], PreExec = False\<rparr>"

text \<open>The replay-guard key of a decoded transaction, as \<open>verifyBtcTx\<close> builds it.\<close>

definition replayKey :: "btc_env \<Rightarrow> MsgTx \<Rightarrow> bytes" where
  "replayKey cli mtx =
     ConcatKey (CrossChainManagerContractAddress cli) [Key_prefix_BTC cli, TxHash cli mtx]"


text \<open>The status test of the counting loop.\<close>

definition isActive :: "PeerPoolItem \<Rightarrow> bool" where
  "isActive peerPoolItem \<longleftrightarrow>
     PeerPoolItem.Status peerPoolItem = CandidateStatus \<or>
     PeerPoolItem.Status peerPoolItem = ConsensusStatus"

text \<open>The example store after a peer with key byte 200 has applied with a stake of 50.\<close>

definition example_applied :: "nat \<Rightarrow> store" where
  "example_applied n =
     snd (RegisterCandidate example_deps (example_native [200, 5, 50] 5) (example_store n 7))"

(*PROPERTIES*)
section \<open>Properties of the Bitcoin handler\<close>

subsection \<open>Confirmation depth\<close>

lemma confirmation_gate_iff:
  assumes "GetCurrentHeightFromSpv cli = Some besth" "GetSideChain cli cid = Some sideChain"
  shows "(fst (verifyBtcTx cli db proof tx height cid) = Inl NotConfirmed)
     \<longleftrightarrow> besth - height < ucast (BlocksToWait sideChain - 1)"
  using assms
  by (auto simp: verifyBtcTx_def NotConfirmed_def AlreadyExist_def Let_def
      split: option.splits sum.splits prod.splits list.splits if_splits)

lemma confirmation_gate_in_range:
  assumes "GetCurrentHeightFromSpv cli = Some besth" "GetSideChain cli cid = Some sideChain"
    "height \<le> besth" "1 \<le> unat (BlocksToWait sideChain)" "unat (BlocksToWait sideChain) \<le> 2 ^ 32"
  shows "(fst (verifyBtcTx cli db proof tx height cid) = Inl NotConfirmed)
     \<longleftrightarrow> int (unat besth) - int (unat height) < int (unat (BlocksToWait sideChain)) - 1"
proof -
  have d: "unat (besth - height) = unat besth - unat height"
    using assms(3) by (simp add: unat_sub)
  have le: "unat height \<le> unat besth" using assms(3) by (simp add: word_le_nat_alt)
  have "BlocksToWait sideChain \<noteq> 0" using assms(4) by auto
  then have "unat (BlocksToWait sideChain - 1) = unat (BlocksToWait sideChain) - 1"
    by (rule unat_minus_one)
  then have t: "unat (ucast (BlocksToWait sideChain - 1) :: 32 word) = unat (BlocksToWait sideChain) - 1"
    using assms(4,5) by (simp add: unsigned_ucast_eq take_bit_nat_eq_self)
  show ?thesis
    unfolding confirmation_gate_iff[OF assms(1,2)] word_less_nat_alt d t
    using le assms(4) by linarith
qed

text \<open>
  C10 (as amended). The comparison is made in \<open>uint32\<close>: for a claimed height above the
  oracle's current height, \<open>besth - height\<close> wraps to \<open>2^32 - (height - besth)\<close>, and the
  proof is rejected as unconfirmed exactly when this wrapped value is below
  \<open>uint32(BlocksToWait - 1)\<close>. For \<open>height = besth + 1\<close> the wrapped value is the largest
  \<open>uint32\<close> and the gate always passes.
\<close>

theorem future_height_gate:
  assumes "GetCurrentHeightFromSpv cli = Some besth" "GetSideChain cli cid = Some sideChain"
    "besth < height"
  shows "unat (besth - height) = 2 ^ 32 - (unat height - unat besth) \<and>
    ((fst (verifyBtcTx cli db proof tx height cid) = Inl NotConfirmed)
       \<longleftrightarrow> 2 ^ 32 - (unat height - unat besth)
            < unat (ucast (BlocksToWait sideChain - 1) :: 32 word)) \<and>
    (height = besth + 1 \<longrightarrow> fst (verifyBtcTx cli db proof tx height cid) \<noteq> Inl NotConfirmed)"
proof -
  have lt: "unat besth < unat height" using assms(3) by (simp add: word_less_nat_alt)
  have h: "unat height < 2 ^ 32" using unsigned_less[of height] by simp
  have d: "unat (besth - height) = 2 ^ 32 - (unat height - unat besth)"
    using lt h by (simp add: unat_sub_if_size word_size)
  have g: "(fst (verifyBtcTx cli db proof tx height cid) = Inl NotConfirmed)
       \<longleftrightarrow> 2 ^ 32 - (unat height - unat besth)
            < unat (ucast (BlocksToWait sideChain - 1) :: 32 word)"
    unfolding confirmation_gate_iff[OF assms(1,2)] word_less_nat_alt d ..
  have "height = besth + 1 \<longrightarrow> fst (verifyBtcTx cli db proof tx height cid) \<noteq> Inl NotConfirmed"
  proof
    assume e: "height = besth + 1"
    have "besth - height = - 1" using e by simp
    then have "\<not> besth - height < ucast (BlocksToWait sideChain - 1)"
      by (simp add: word_order.extremum_strict)
    then show "fst (verifyBtcTx cli db proof tx height cid) \<noteq> Inl NotConfirmed"
      using confirmation_gate_iff[OF assms(1,2)] by blast
  qed
  with d g show ?thesis by blast
qed

theorem future_height_gate_witness:
  "(100 :: 32 word) < 101 \<and> unat ((100 :: 32 word) - 101) = 4294967295 \<and>
   fst (verifyBtcTx (example_cli 100 6 0) emptydb [171] [171] 101 1) \<noteq> Inl NotConfirmed"
proof -
  have a: "GetCurrentHeightFromSpv (example_cli 100 6 0) = Some 100"
    "GetSideChain (example_cli 100 6 0) 1 = Some \<lparr>BlocksToWait = 6\<rparr>"
    by (simp_all add: example_cli_def)
  have b: "(100 :: 32 word) < 101" by simp
  from future_height_gate[OF a b, of emptydb "[171]" "[171]"] b show ?thesis by simp
qed

text \<open>
  C10 as stated fails: with current height 2, claimed height \<open>2^32 - 1\<close> and
  \<open>BlocksToWait = 6\<close> the difference wraps to 3, which is below 5, and the proof is rejected
  as unconfirmed.
\<close>

theorem future_height_rejected_counterexample:
  "(2 :: 32 word) < 4294967295 \<and> (1 :: 64 word) \<le> 6 \<and>
   fst (verifyBtcTx (example_cli 2 6 0) emptydb [171] [171] 4294967295 1) = Inl NotConfirmed"
  by (simp add: verifyBtcTx_def example_cli_def)

text \<open>
  C2. At current height 100, claimed height 101 and \<open>BlocksToWait = 6\<close> the difference
  \<open>100 - 101 = -1\<close> is below \<open>6 - 1\<close>, yet the proof is not rejected as unconfirmed: the
  \<open>uint32\<close> subtraction wraps, the gate passes, and with an oracle that serves a header for
  that height the proof is accepted. (\<open>confirmation_gate_in_range\<close> is the statement that
  holds for claimed heights up to the current one.)
\<close>

theorem confirmation_gate_future_height:
  "int (unat (100 :: 32 word)) - int (unat (101 :: 32 word)) < int (unat (6 :: 64 word)) - 1 \<and>
   verifyBtcTx (example_cli 100 6 0) emptydb [171] [171] 101 1 =
     (Inr (True, \<lparr>ChainId = 2, Addr = [106], ParamValue = 500000\<rparr>),
      Put emptydb [3, 1, 2, 171] [1])"
  by (simp add: verifyBtcTx_def example_cli_def example_BtcDecode_def example_BchDecode_def
        example_TxHash_def Get_def emptydb_def ConcatKey_def example_checkTxOutputs_def
        example_resolve_def example_ExtractMatches_def)

theorem confirmation_gate_future_height_witness:
  "fst (verifyBtcTx (example_cli 100 6 0) emptydb [171] [171] 101 1) \<noteq> Inl NotConfirmed"
  using confirmation_gate_future_height by simp

subsection \<open>Replay guard\<close>

lemma verifyBtcTx_error_keeps_db:
  "verifyBtcTx cli db proof tx height cid = (Inl e, db') \<Longrightarrow> db' = db"
  by (auto simp: verifyBtcTx_def Let_def
      split: option.splits sum.splits prod.splits list.splits if_splits)

lemma verifyBtcTx_success:
  assumes "verifyBtcTx cli db proof tx height cid = (Inr r, db')"
  shows "\<exists>besth sideChain mtx mb out0 out1 rest param header.
      GetCurrentHeightFromSpv cli = Some besth \<and> GetSideChain cli cid = Some sideChain \<and>
      \<not> besth - height < ucast (BlocksToWait sideChain - 1) \<and>
      BtcDecode cli tx = Some mtx \<and> BchDecode cli proof = Some mb \<and>
      TxHash cli mtx \<in> set (Hashes mb) \<and>
      Get db (replayKey cli mtx) \<noteq> Inr (Some [1]) \<and>
      checkTxOutputs cli mtx = (True, None) \<and>
      TxOuts mtx = out0 # out1 # rest \<and> resolve cli (Value out0) out1 = Inr param \<and>
      \<not> BadTree cli mb \<and> GetMatches cli mb \<noteq> [] \<and>
      GetHeaderFromSpv cli height = Some header \<and>
      ExtractMatches cli mb = Some (MerkleRoot header) \<and>
      r = (True, param) \<and> db' = Put db (replayKey cli mtx) [1]"
  using assms
  by (auto simp: verifyBtcTx_def Let_def replayKey_def
      split: option.splits sum.splits prod.splits list.splits if_splits)

lemma verifyBtcTx_replay_fails:
  assumes "BtcDecode cli tx = Some mtx" "db (replayKey cli mtx) = Present [1]"
  shows "\<exists>e. verifyBtcTx cli db proof tx height cid = (Inl e, db)"
  using assms
  by (auto simp: verifyBtcTx_def Let_def replayKey_def Get_def
      split: option.splits sum.splits prod.splits list.splits if_splits)

lemma verifyBtcTx_replay_AlreadyExist:
  assumes "GetCurrentHeightFromSpv cli = Some besth" "GetSideChain cli cid = Some sideChain"
    "\<not> besth - height < ucast (BlocksToWait sideChain - 1)"
    "BtcDecode cli tx = Some mtx" "BchDecode cli proof = Some mb"
    "TxHash cli mtx \<in> set (Hashes mb)" "db (replayKey cli mtx) = Present [1]"
  shows "verifyBtcTx cli db proof tx height cid = (Inl AlreadyExist, db)"
  using assms
  by (simp add: verifyBtcTx_def Let_def replayKey_def Get_def)

lemma verifyBtcTx_twice:
  assumes "verifyBtcTx cli db proof tx height cid = (Inr r, db')"
  shows "verifyBtcTx cli db' proof tx height cid = (Inl AlreadyExist, db')"
proof -
  from verifyBtcTx_success[OF assms] obtain besth sideChain mtx mb where
    f: "GetCurrentHeightFromSpv cli = Some besth" "GetSideChain cli cid = Some sideChain"
      "\<not> besth - height < ucast (BlocksToWait sideChain - 1)"
      "BtcDecode cli tx = Some mtx" "BchDecode cli proof = Some mb"
      "TxHash cli mtx \<in> set (Hashes mb)"
      "db' = Put db (replayKey cli mtx) [1]"
    by blast
  have p: "db' (replayKey cli mtx) = Present [1]"
    using f(7) by (simp add: Put_def)
  show ?thesis using f(1-6) p by (rule verifyBtcTx_replay_AlreadyExist)
qed

lemma Verify_twice:
  assumes "Verify cli service = (Inr p, service')"
  shows "Verify cli service' = (Inl (Wrapped ''btc Verify, failed to verify'' AlreadyExist), service')"
proof -
  from assms obtain params tx pbytes tp db' where
    d: "deserEntranceParam cli (Input service) = Some params"
      "Proof params \<noteq> []" "TxData params \<noteq> []"
      "DecodeString (TxData params) = Some tx" "DecodeString (Proof params) = Some pbytes"
      "verifyBtcTx cli (CacheDB service) pbytes tx (Height params) (SourceChainID params)
         = (Inr (True, tp), db')"
      "service' = service\<lparr>CacheDB := db'\<rparr>"
    by (auto simp: Verify_def split: option.splits if_splits sum.splits prod.splits)
  from verifyBtcTx_twice[OF d(6)]
  have "verifyBtcTx cli db' pbytes tx (Height params) (SourceChainID params) = (Inl AlreadyExist, db')" .
  with d show ?thesis by (simp add: Verify_def)
qed

lemma verifyBtcTx_accepts:
  assumes "GetCurrentHeightFromSpv cli = Some besth" "GetSideChain cli cid = Some sideChain"
    "\<not> besth - height < ucast (BlocksToWait sideChain - 1)"
    "BtcDecode cli tx = Some mtx" "BchDecode cli proof = Some mb"
    "TxHash cli mtx \<in> set (Hashes mb)"
    "Get db (replayKey cli mtx) = Inr val" "val \<noteq> Some [1]"
    "checkTxOutputs cli mtx = (True, None)"
    "TxOuts mtx = out0 # out1 # rest" "resolve cli (Value out0) out1 = Inr param"
    "\<not> BadTree cli mb" "GetMatches cli mb \<noteq> []"
    "GetHeaderFromSpv cli height = Some header"
    "ExtractMatches cli mb = Some (MerkleRoot header)"
  shows "verifyBtcTx cli db proof tx height cid =
     (Inr (True, param), Put db (replayKey cli mtx) [1])"
  using assms
  by (simp add: verifyBtcTx_def Let_def replayKey_def)

lemma Verify_success:
  assumes "Verify cli service = (Inr p, service')"
  shows "\<exists>params txb pb tp db'.
      deserEntranceParam cli (Input service) = Some params \<and>
      Proof params \<noteq> [] \<and> TxData params \<noteq> [] \<and>
      DecodeString (TxData params) = Some txb \<and> DecodeString (Proof params) = Some pb \<and>
      verifyBtcTx cli (CacheDB service) pb txb (Height params) (SourceChainID params)
         = (Inr (True, tp), db') \<and>
      service' = service\<lparr>CacheDB := db'\<rparr> \<and>
      p = \<lparr>FromChainID = SourceChainID params, FromContractAddress = BTC_ADDRESS,
           ToChainID = ChainId tp, ToAddress = ToBase58 cli (Addr tp),
           Amount = sint (ParamValue tp)\<rparr>"
  using assms
  by (auto simp: Verify_def split: option.splits if_splits sum.splits prod.splits)

lemma Verify_accepts:
  assumes "deserEntranceParam cli (Input service) = Some params"
      "Proof params \<noteq> []" "TxData params \<noteq> []"
      "DecodeString (TxData params) = Some txb" "DecodeString (Proof params) = Some pb"
      "verifyBtcTx cli (CacheDB service) pb txb (Height params) (SourceChainID params)
         = (Inr (True, tp), db')"
  shows "Verify cli service =
     (Inr \<lparr>FromChainID = SourceChainID params, FromContractAddress = BTC_ADDRESS,
           ToChainID = ChainId tp, ToAddress = ToBase58 cli (Addr tp),
           Amount = sint (ParamValue tp)\<rparr>, service\<lparr>CacheDB := db'\<rparr>)"
  using assms by (simp add: Verify_def)

lemma Verify_error_keeps_service:
  assumes "Verify cli service = (Inl e, service')"
  shows "service' = service"
proof -
  have k: "\<And>pb txb h c e db'. verifyBtcTx cli (CacheDB service) pb txb h c = (Inl e, db')
      \<Longrightarrow> service\<lparr>CacheDB := db'\<rparr> = service"
    using verifyBtcTx_error_keeps_db by fastforce
  have t: "\<And>pb txb h c ok tp db'. verifyBtcTx cli (CacheDB service) pb txb h c = (Inr (ok, tp), db')
      \<Longrightarrow> ok = True"
    using verifyBtcTx_success by fastforce
  show ?thesis
    using assms
    by (auto simp: Verify_def split: option.splits if_splits sum.splits prod.splits
        dest: k t)
qed

text \<open>
  C1 (as amended). A proof/transaction pair is accepted at most once. A call of
  \<open>verifyBtcTx\<close> that returns an error writes nothing, and so does \<open>Verify\<close>. A call
  succeeds exactly when every validation passes (confirmation depth, both decodings, txid
  among the proof's hashes, no sentinel stored, output shape, two outputs that resolve, a
  merkle tree that is not bad and has matches, merkle root equal to the header's); its only
  write is the one-byte sentinel \<open>[1]\<close> under the replay key of the txid. While the sentinel
  is stored, a later call presenting the same transaction never succeeds: it fails with
  \<open>AlreadyExist\<close> whenever it passes the checks that precede the lookup (confirmation depth,
  proof decoding, txid among the proof's hashes), in particular when it is the identical
  call, and with the error of the failing earlier check otherwise. \<open>Verify\<close> succeeds exactly
  when its parameters decode and \<open>verifyBtcTx\<close> succeeds, and a second \<open>Verify\<close> on the
  resulting service returns \<open>AlreadyExist\<close> wrapped in its own message.
\<close>

theorem verify_at_most_once:
  "(\<forall>e db'. verifyBtcTx cli db proof tx height cid = (Inl e, db') \<longrightarrow> db' = db) \<and>
   (\<forall>r db'. verifyBtcTx cli db proof tx height cid = (Inr r, db') \<longrightarrow>
      (\<exists>besth sideChain mtx mb out0 out1 rest param header.
         GetCurrentHeightFromSpv cli = Some besth \<and> GetSideChain cli cid = Some sideChain \<and>
         \<not> besth - height < ucast (BlocksToWait sideChain - 1) \<and>
         BtcDecode cli tx = Some mtx \<and> BchDecode cli proof = Some mb \<and>
         TxHash cli mtx \<in> set (Hashes mb) \<and>
         Get db (replayKey cli mtx) \<noteq> Inr (Some [1]) \<and>
         checkTxOutputs cli mtx = (True, None) \<and>
         TxOuts mtx = out0 # out1 # rest \<and> resolve cli (Value out0) out1 = Inr param \<and>
         \<not> BadTree cli mb \<and> GetMatches cli mb \<noteq> [] \<and>
         GetHeaderFromSpv cli height = Some header \<and>
         ExtractMatches cli mb = Some (MerkleRoot header) \<and>
         r = (True, param) \<and>
         db' = Put db (replayKey cli mtx) [1] \<and>
         (\<forall>db2. db2 (replayKey cli mtx) = Present [1] \<longrightarrow>
            verifyBtcTx cli db2 proof tx height cid = (Inl AlreadyExist, db2)) \<and>
         (\<forall>cli' db2 proof' height' cid'.
            BtcDecode cli' tx = Some mtx \<and> replayKey cli' mtx = replayKey cli mtx \<and>
            db2 (replayKey cli mtx) = Present [1] \<longrightarrow>
            (\<exists>e. verifyBtcTx cli' db2 proof' tx height' cid' = (Inl e, db2)) \<and>
            (\<forall>besth' sideChain' mb'.
               GetCurrentHeightFromSpv cli' = Some besth' \<and>
               GetSideChain cli' cid' = Some sideChain' \<and>
               \<not> besth' - height' < ucast (BlocksToWait sideChain' - 1) \<and>
               BchDecode cli' proof' = Some mb' \<and> TxHash cli' mtx \<in> set (Hashes mb') \<longrightarrow>
               verifyBtcTx cli' db2 proof' tx height' cid' = (Inl AlreadyExist, db2))))) \<and>
   (\<forall>besth sideChain mtx mb val out0 out1 rest param header.
      GetCurrentHeightFromSpv cli = Some besth \<and> GetSideChain cli cid = Some sideChain \<and>
      \<not> besth - height < ucast (BlocksToWait sideChain - 1) \<and>
      BtcDecode cli tx = Some mtx \<and> BchDecode cli proof = Some mb \<and>
      TxHash cli mtx \<in> set (Hashes mb) \<and>
      Get db (replayKey cli mtx) = Inr val \<and> val \<noteq> Some [1] \<and>
      checkTxOutputs cli mtx = (True, None) \<and>
      TxOuts mtx = out0 # out1 # rest \<and> resolve cli (Value out0) out1 = Inr param \<and>
      \<not> BadTree cli mb \<and> GetMatches cli mb \<noteq> [] \<and>
      GetHeaderFromSpv cli height = Some header \<and>
      ExtractMatches cli mb = Some (MerkleRoot header) \<longrightarrow>
      verifyBtcTx cli db proof tx height cid =
        (Inr (True, param), Put db (replayKey cli mtx) [1])) \<and>
   (\<forall>e service'. Verify cli service = (Inl e, service') \<longrightarrow> service' = service) \<and>
   (\<forall>p service'. Verify cli service = (Inr p, service') \<longrightarrow>
      (\<exists>params txb pb tp db'.
         deserEntranceParam cli (Input service) = Some params \<and>
         DecodeString (TxData params) = Some txb \<and> DecodeString (Proof params) = Some pb \<and>
         verifyBtcTx cli (CacheDB service) pb txb (Height params) (SourceChainID params)
           = (Inr (True, tp), db') \<and>
         service' = service\<lparr>CacheDB := db'\<rparr> \<and>
         p = \<lparr>FromChainID = SourceChainID params, FromContractAddress = BTC_ADDRESS,
              ToChainID = ChainId tp, ToAddress = ToBase58 cli (Addr tp),
              Amount = sint (ParamValue tp)\<rparr>) \<and>
      Verify cli service' =
        (Inl (Wrapped ''btc Verify, failed to verify'' AlreadyExist), service')) \<and>
   (\<forall>params txb pb tp db'.
      deserEntranceParam cli (Input service) = Some params \<and>
      Proof params \<noteq> [] \<and> TxData params \<noteq> [] \<and>
      DecodeString (TxData params) = Some txb \<and> DecodeString (Proof params) = Some pb \<and>
      verifyBtcTx cli (CacheDB service) pb txb (Height params) (SourceChainID params)
        = (Inr (True, tp), db') \<longrightarrow>
      Verify cli service =
        (Inr \<lparr>FromChainID = SourceChainID params, FromContractAddress = BTC_ADDRESS,
              ToChainID = ChainId tp, ToAddress = ToBase58 cli (Addr tp),
              Amount = sint (ParamValue tp)\<rparr>, service\<lparr>CacheDB := db'\<rparr>))"
proof -
  have A: "\<forall>e db'. verifyBtcTx cli db proof tx height cid = (Inl e, db') \<longrightarrow> db' = db"
    using verifyBtcTx_error_keeps_db by blast
  have B: "\<forall>r db'. verifyBtcTx cli db proof tx height cid = (Inr r, db') \<longrightarrow>
      (\<exists>besth sideChain mtx mb out0 out1 rest param header.
         GetCurrentHeightFromSpv cli = Some besth \<and> GetSideChain cli cid = Some sideChain \<and>
         \<not> besth - height < ucast (BlocksToWait sideChain - 1) \<and>
         BtcDecode cli tx = Some mtx \<and> BchDecode cli proof = Some mb \<and>
         TxHash cli mtx \<in> set (Hashes mb) \<and>
         Get db (replayKey cli mtx) \<noteq> Inr (Some [1]) \<and>
         checkTxOutputs cli mtx = (True, None) \<and>
         TxOuts mtx = out0 # out1 # rest \<and> resolve cli (Value out0) out1 = Inr param \<and>
         \<not> BadTree cli mb \<and> GetMatches cli mb \<noteq> [] \<and>
         GetHeaderFromSpv cli height = Some header \<and>
         ExtractMatches cli mb = Some (MerkleRoot header) \<and>
         r = (True, param) \<and>
         db' = Put db (replayKey cli mtx) [1] \<and>
         (\<forall>db2. db2 (replayKey cli mtx) = Present [1] \<longrightarrow>
            verifyBtcTx cli db2 proof tx height cid = (Inl AlreadyExist, db2)) \<and>
         (\<forall>cli' db2 proof' height' cid'.
            BtcDecode cli' tx = Some mtx \<and> replayKey cli' mtx = replayKey cli mtx \<and>
            db2 (replayKey cli mtx) = Present [1] \<longrightarrow>
            (\<exists>e. verifyBtcTx cli' db2 proof' tx height' cid' = (Inl e, db2)) \<and>
            (\<forall>besth' sideChain' mb'.
               GetCurrentHeightFromSpv cli' = Some besth' \<and>
               GetSideChain cli' cid' = Some sideChain' \<and>
               \<not> besth' - height' < ucast (BlocksToWait sideChain' - 1) \<and>
               BchDecode cli' proof' = Some mb' \<and> TxHash cli' mtx \<in> set (Hashes mb') \<longrightarrow>
               verifyBtcTx cli' db2 proof' tx height' cid' = (Inl AlreadyExist, db2))))"
  proof (intro allI impI)
    fix r db'
    assume ok: "verifyBtcTx cli db proof tx height cid = (Inr r, db')"
    from verifyBtcTx_success[OF ok] obtain besth sideChain mtx mb out0 out1 rest param header
      where f: "GetCurrentHeightFromSpv cli = Some besth" "GetSideChain cli cid = Some sideChain"
        "\<not> besth - height < ucast (BlocksToWait sideChain - 1)"
        "BtcDecode cli tx = Some mtx" "BchDecode cli proof = Some mb"
        "TxHash cli mtx \<in> set (Hashes mb)"
      and g: "Get db (replayKey cli mtx) \<noteq> Inr (Some [1])"
        "checkTxOutputs cli mtx = (True, None)"
        "TxOuts mtx = out0 # out1 # rest" "resolve cli (Value out0) out1 = Inr param"
        "\<not> BadTree cli mb" "GetMatches cli mb \<noteq> []"
        "GetHeaderFromSpv cli height = Some header"
        "ExtractMatches cli mb = Some (MerkleRoot header)"
        "r = (True, param)" "db' = Put db (replayKey cli mtx) [1]"
      by blast
    have same: "\<forall>db2. db2 (replayKey cli mtx) = Present [1] \<longrightarrow>
            verifyBtcTx cli db2 proof tx height cid = (Inl AlreadyExist, db2)"
      using f verifyBtcTx_replay_AlreadyExist[where cli=cli and tx=tx and mtx=mtx] by blast
    have later: "\<forall>cli' db2 proof' height' cid'.
            BtcDecode cli' tx = Some mtx \<and> replayKey cli' mtx = replayKey cli mtx \<and>
            db2 (replayKey cli mtx) = Present [1] \<longrightarrow>
            (\<exists>e. verifyBtcTx cli' db2 proof' tx height' cid' = (Inl e, db2)) \<and>
            (\<forall>besth' sideChain' mb'.
               GetCurrentHeightFromSpv cli' = Some besth' \<and>
               GetSideChain cli' cid' = Some sideChain' \<and>
               \<not> besth' - height' < ucast (BlocksToWait sideChain' - 1) \<and>
               BchDecode cli' proof' = Some mb' \<and> TxHash cli' mtx \<in> set (Hashes mb') \<longrightarrow>
               verifyBtcTx cli' db2 proof' tx height' cid' = (Inl AlreadyExist, db2))"
    proof (intro allI impI)
      fix cli' and db2 :: cachedb and proof' height' cid'
      assume a: "BtcDecode cli' tx = Some mtx \<and> replayKey cli' mtx = replayKey cli mtx \<and>
            db2 (replayKey cli mtx) = Present [1]"
      then have d: "BtcDecode cli' tx = Some mtx" and p: "db2 (replayKey cli' mtx) = Present [1]"
        by simp_all
      have one: "\<exists>e. verifyBtcTx cli' db2 proof' tx height' cid' = (Inl e, db2)"
        using d p by (rule verifyBtcTx_replay_fails)
      have two: "\<forall>besth' sideChain' mb'.
               GetCurrentHeightFromSpv cli' = Some besth' \<and>
               GetSideChain cli' cid' = Some sideChain' \<and>
               \<not> besth' - height' < ucast (BlocksToWait sideChain' - 1) \<and>
               BchDecode cli' proof' = Some mb' \<and> TxHash cli' mtx \<in> set (Hashes mb') \<longrightarrow>
               verifyBtcTx cli' db2 proof' tx height' cid' = (Inl AlreadyExist, db2)"
        using d p verifyBtcTx_replay_AlreadyExist[where cli=cli' and db=db2 and tx=tx and mtx=mtx]
        by blast
      from one two
      show "(\<exists>e. verifyBtcTx cli' db2 proof' tx height' cid' = (Inl e, db2)) \<and>
            (\<forall>besth' sideChain' mb'.
               GetCurrentHeightFromSpv cli' = Some besth' \<and>
               GetSideChain cli' cid' = Some sideChain' \<and>
               \<not> besth' - height' < ucast (BlocksToWait sideChain' - 1) \<and>
               BchDecode cli' proof' = Some mb' \<and> TxHash cli' mtx \<in> set (Hashes mb') \<longrightarrow>
               verifyBtcTx cli' db2 proof' tx height' cid' = (Inl AlreadyExist, db2))"
        by blast
    qed
    show "\<exists>besth sideChain mtx mb out0 out1 rest param header.
         GetCurrentHeightFromSpv cli = Some besth \<and> GetSideChain cli cid = Some sideChain \<and>
         \<not> besth - height < ucast (BlocksToWait sideChain - 1) \<and>
         BtcDecode cli tx = Some mtx \<and> BchDecode cli proof = Some mb \<and>
         TxHash cli mtx \<in> set (Hashes mb) \<and>
         Get db (replayKey cli mtx) \<noteq> Inr (Some [1]) \<and>
         checkTxOutputs cli mtx = (True, None) \<and>
         TxOuts mtx = out0 # out1 # rest \<and> resolve cli (Value out0) out1 = Inr param \<and>
         \<not> BadTree cli mb \<and> GetMatches cli mb \<noteq> [] \<and>
         GetHeaderFromSpv cli height = Some header \<and>
         ExtractMatches cli mb = Some (MerkleRoot header) \<and>
         r = (True, param) \<and>
         db' = Put db (replayKey cli mtx) [1] \<and>
         (\<forall>db2. db2 (replayKey cli mtx) = Present [1] \<longrightarrow>
            verifyBtcTx cli db2 proof tx height cid = (Inl AlreadyExist, db2)) \<and>
         (\<forall>cli' db2 proof' height' cid'.
            BtcDecode cli' tx = Some mtx \<and> replayKey cli' mtx = replayKey cli mtx \<and>
            db2 (replayKey cli mtx) = Present [1] \<longrightarrow>
            (\<exists>e. verifyBtcTx cli' db2 proof' tx height' cid' = (Inl e, db2)) \<and>
            (\<forall>besth' sideChain' mb'.
               GetCurrentHeightFromSpv cli' = Some besth' \<and>
               GetSideChain cli' cid' = Some sideChain' \<and>
               \<not> besth' - height' < ucast (BlocksToWait sideChain' - 1) \<and>
               BchDecode cli' proof' = Some mb' \<and> TxHash cli' mtx \<in> set (Hashes mb') \<longrightarrow>
               verifyBtcTx cli' db2 proof' tx height' cid' = (Inl AlreadyExist, db2)))"
      apply (rule exI[of _ besth], rule exI[of _ sideChain], rule exI[of _ mtx],
             rule exI[of _ mb], rule exI[of _ out0], rule exI[of _ out1], rule exI[of _ rest],
             rule exI[of _ param], rule exI[of _ header])
      using f g same later by (intro conjI) assumption+
  qed
  have C: "\<forall>besth sideChain mtx mb val out0 out1 rest param header.
      GetCurrentHeightFromSpv cli = Some besth \<and> GetSideChain cli cid = Some sideChain \<and>
      \<not> besth - height < ucast (BlocksToWait sideChain - 1) \<and>
      BtcDecode cli tx = Some mtx \<and> BchDecode cli proof = Some mb \<and>
      TxHash cli mtx \<in> set (Hashes mb) \<and>
      Get db (replayKey cli mtx) = Inr val \<and> val \<noteq> Some [1] \<and>
      checkTxOutputs cli mtx = (True, None) \<and>
      TxOuts mtx = out0 # out1 # rest \<and> resolve cli (Value out0) out1 = Inr param \<and>
      \<not> BadTree cli mb \<and> GetMatches cli mb \<noteq> [] \<and>
      GetHeaderFromSpv cli height = Some header \<and>
      ExtractMatches cli mb = Some (MerkleRoot header) \<longrightarrow>
      verifyBtcTx cli db proof tx height cid =
        (Inr (True, param), Put db (replayKey cli mtx) [1])"
    using verifyBtcTx_accepts by blast
  have D: "\<forall>e service'. Verify cli service = (Inl e, service') \<longrightarrow> service' = service"
    using Verify_error_keeps_service by blast
  have E: "\<forall>p service'. Verify cli service = (Inr p, service') \<longrightarrow>
      (\<exists>params txb pb tp db'.
         deserEntranceParam cli (Input service) = Some params \<and>
         DecodeString (TxData params) = Some txb \<and> DecodeString (Proof params) = Some pb \<and>
         verifyBtcTx cli (CacheDB service) pb txb (Height params) (SourceChainID params)
           = (Inr (True, tp), db') \<and>
         service' = service\<lparr>CacheDB := db'\<rparr> \<and>
         p = \<lparr>FromChainID = SourceChainID params, FromContractAddress = BTC_ADDRESS,
              ToChainID = ChainId tp, ToAddress = ToBase58 cli (Addr tp),
              Amount = sint (ParamValue tp)\<rparr>) \<and>
      Verify cli service' =
        (Inl (Wrapped ''btc Verify, failed to verify'' AlreadyExist), service')"
  proof (intro allI impI conjI)
    fix p service'
    assume v: "Verify cli service = (Inr p, service')"
    from Verify_success[OF v]
    show "\<exists>params txb pb tp db'.
         deserEntranceParam cli (Input service) = Some params \<and>
         DecodeString (TxData params) = Some txb \<and> DecodeString (Proof params) = Some pb \<and>
         verifyBtcTx cli (CacheDB service) pb txb (Height params) (SourceChainID params)
           = (Inr (True, tp), db') \<and>
         service' = service\<lparr>CacheDB := db'\<rparr> \<and>
         p = \<lparr>FromChainID = SourceChainID params, FromContractAddress = BTC_ADDRESS,
              ToChainID = ChainId tp, ToAddress = ToBase58 cli (Addr tp),
              Amount = sint (ParamValue tp)\<rparr>"
      by blast
    from Verify_twice[OF v]
    show "Verify cli service' =
        (Inl (Wrapped ''btc Verify, failed to verify'' AlreadyExist), service')" .
  qed
  have F: "\<forall>params txb pb tp db'.
      deserEntranceParam cli (Input service) = Some params \<and>
      Proof params \<noteq> [] \<and> TxData params \<noteq> [] \<and>
      DecodeString (TxData params) = Some txb \<and> DecodeString (Proof params) = Some pb \<and>
      verifyBtcTx cli (CacheDB service) pb txb (Height params) (SourceChainID params)
        = (Inr (True, tp), db') \<longrightarrow>
      Verify cli service =
        (Inr \<lparr>FromChainID = SourceChainID params, FromContractAddress = BTC_ADDRESS,
              ToChainID = ChainId tp, ToAddress = ToBase58 cli (Addr tp),
              Amount = sint (ParamValue tp)\<rparr>, service\<lparr>CacheDB := db'\<rparr>)"
    using Verify_accepts by blast
  from A B C D E F show ?thesis by (intro conjI)
qed

theorem verify_at_most_once_witness:
  "fst (Verify (example_cli 100 6 0) (example_service [95])) =
     Inr \<lparr>FromChainID = 1, FromContractAddress = ''btc'', ToChainID = 2,
          ToAddress = ''dest'', Amount = 500000\<rparr> \<and>
   Verify (example_cli 100 6 0) (snd (Verify (example_cli 100 6 0) (example_service [95]))) =
     (Inl (Wrapped ''btc Verify, failed to verify'' AlreadyExist),
      snd (Verify (example_cli 100 6 0) (example_service [95]))) \<and>
   verifyBtcTx (example_cli 100 6 0) emptydb [171] [171] 95 1 =
     (Inr (True, \<lparr>ChainId = 2, Addr = [106], ParamValue = 500000\<rparr>),
      Put emptydb [3, 1, 2, 171] [1]) \<and>
   verifyBtcTx (example_cli 100 6 0) (Put emptydb [3, 1, 2, 171] [1]) [171] [171] 95 1 =
     (Inl AlreadyExist, Put emptydb [3, 1, 2, 171] [1])"
proof -
  let ?cli = "example_cli 100 6 0"
  let ?p = "\<lparr>FromChainID = 1, FromContractAddress = ''btc'', ToChainID = 2,
          ToAddress = ''dest'', Amount = 500000\<rparr>"
  have first: "verifyBtcTx ?cli emptydb [171] [171] 95 1 =
     (Inr (True, \<lparr>ChainId = 2, Addr = [106], ParamValue = 500000\<rparr>),
      Put emptydb [3, 1, 2, 171] [1])"
    by (simp add: verifyBtcTx_def example_cli_def example_BtcDecode_def example_BchDecode_def
        example_TxHash_def Get_def emptydb_def ConcatKey_def example_checkTxOutputs_def
        example_resolve_def example_ExtractMatches_def)
  have key: "replayKey ?cli \<lparr>TxIns = [], TxOuts = [\<lparr>Value = 500000, PkScript = [171]\<rparr>,
                 \<lparr>Value = 0, PkScript = [106]\<rparr>]\<rparr> = [3, 1, 2, 171]"
    by (simp add: replayKey_def example_cli_def example_TxHash_def ConcatKey_def)
  have dec: "BtcDecode ?cli [171] = Some \<lparr>TxIns = [], TxOuts = [\<lparr>Value = 500000, PkScript = [171]\<rparr>,
                 \<lparr>Value = 0, PkScript = [106]\<rparr>]\<rparr>"
    by (simp add: example_cli_def example_BtcDecode_def)
  have sent: "Put emptydb [3, 1, 2, 171] [1] [3, 1, 2, 171] = Present [1]"
    by (simp add: Put_def)
  note whole = verify_at_most_once[of ?cli emptydb "[171]" "[171]" 95 1 "example_service [95]"]
  note rep = whole[THEN conjunct2, THEN conjunct1, rule_format, OF first]
  note vrep = whole[THEN conjunct2, THEN conjunct2, THEN conjunct2, THEN conjunct2,
                    THEN conjunct1, rule_format, THEN conjunct2]
  from rep obtain mtx where m: "BtcDecode ?cli [171] = Some mtx"
    "\<forall>db2. db2 (replayKey ?cli mtx) = Present [1] \<longrightarrow>
            verifyBtcTx ?cli db2 [171] [171] 95 1 = (Inl AlreadyExist, db2)"
    by (elim exE conjE) (rule that, assumption+)
  from m(1) dec have "mtx = \<lparr>TxIns = [], TxOuts = [\<lparr>Value = 500000, PkScript = [171]\<rparr>,
                 \<lparr>Value = 0, PkScript = [106]\<rparr>]\<rparr>" by simp
  with m(2) key sent
  have second: "verifyBtcTx ?cli (Put emptydb [3, 1, 2, 171] [1]) [171] [171] 95 1 =
     (Inl AlreadyExist, Put emptydb [3, 1, 2, 171] [1])" by simp
  let ?params = "\<lparr>SourceChainID = 1, Height = 95, Proof = ''ab'', TxData = ''ab''\<rparr>"
  have d: "deserEntranceParam ?cli (Input (example_service [95])) = Some ?params"
    "Proof ?params \<noteq> []" "TxData ?params \<noteq> []"
    "DecodeString (TxData ?params) = Some [171]" "DecodeString (Proof ?params) = Some [171]"
    by (simp_all add: example_cli_def example_deser_def example_service_def fromHexChar_def)
  have f2: "verifyBtcTx ?cli (CacheDB (example_service [95])) [171] [171]
       (Height ?params) (SourceChainID ?params) =
     (Inr (True, \<lparr>ChainId = 2, Addr = [106], ParamValue = 500000\<rparr>),
      Put emptydb [3, 1, 2, 171] [1])"
    using first by (simp add: example_service_def)
  have tb: "ToBase58 ?cli [106] = ''dest''" by (simp add: example_cli_def)
  have v1: "fst (Verify ?cli (example_service [95])) = Inr ?p"
    using Verify_accepts[OF d f2] by (simp add: BTC_ADDRESS_def tb)
  then have "Verify ?cli (example_service [95]) = (Inr ?p, snd (Verify ?cli (example_service [95])))"
    by (metis prod.collapse)
  from vrep[OF this] have v2: "Verify ?cli (snd (Verify ?cli (example_service [95]))) =
     (Inl (Wrapped ''btc Verify, failed to verify'' AlreadyExist),
      snd (Verify ?cli (example_service [95])))" .
  from v1 v2 first second show ?thesis by simp
qed

text \<open>
  C1 as stated fails: after a first accepted call, a later call presenting the same
  transaction is not always answered with "already processed". With the sentinel stored,
  the same transaction claimed at height 99 (current height 100, \<open>BlocksToWait = 6\<close>) is
  rejected as not confirmed, and presented with a proof that does not list its txid it is
  rejected as not found in the proof; both checks come before the sentinel lookup.
\<close>

theorem later_call_other_error_counterexample:
  "verifyBtcTx (example_cli 100 6 0) emptydb [171] [171] 95 1 =
     (Inr (True, \<lparr>ChainId = 2, Addr = [106], ParamValue = 500000\<rparr>),
      Put emptydb [3, 1, 2, 171] [1]) \<and>
   fst (verifyBtcTx (example_cli 100 6 0) (Put emptydb [3, 1, 2, 171] [1]) [171] [171] 99 1) =
     Inl NotConfirmed \<and>
   fst (verifyBtcTx (example_cli 100 6 0) (Put emptydb [3, 1, 2, 171] [1]) [172] [171] 95 1) =
     Inl (Err ''verifyBtcTx, transaction not found in proof'') \<and>
   NotConfirmed \<noteq> AlreadyExist \<and>
   Err ''verifyBtcTx, transaction not found in proof'' \<noteq> AlreadyExist"
  by (simp add: verifyBtcTx_def example_cli_def example_BtcDecode_def example_BchDecode_def
        example_TxHash_def Get_def emptydb_def ConcatKey_def example_checkTxOutputs_def
        example_resolve_def example_ExtractMatches_def NotConfirmed_def AlreadyExist_def)

subsection \<open>Transaction builder\<close>

lemma sumAmounts_total:
  "sumAmounts amounts acc = Inr w \<Longrightarrow> w = acc + sum_list (map snd amounts)"
  by (induction amounts acc rule: sumAmounts.induct) (auto split: if_splits simp: add.assoc)

lemma sumAmounts_each:
  "sumAmounts amounts acc = Inr w \<Longrightarrow> \<forall>(i, a) \<in> set amounts. 0 < sint a \<and> sint a \<le> MaxSatoshi"
  by (induction amounts acc rule: sumAmounts.induct) (auto split: if_splits)


lemma destOutputs_values:
  "destOutputs cli amounts = Inr outs \<Longrightarrow> map Value outs = map snd amounts"
  by (induction cli amounts arbitrary: outs rule: destOutputs.induct) (auto split: sum.splits)

lemma getUnsignedTx_outputs:
  assumes "getUnsignedTx cli txIns amounts change script = Inr mtx"
  shows "\<exists>outs. destOutputs cli amounts = Inr outs \<and> TxIns mtx = txIns \<and>
     (if 0 < sint change
      then \<exists>pk. PayToScriptHashScript cli script = Inr pk \<and> TxOuts mtx = outs @ [\<lparr>Value = change, PkScript = pk\<rparr>]
      else TxOuts mtx = outs)"
  using assms by (auto simp: getUnsignedTx_def split: sum.splits if_splits)

lemma getUnsignedTx_total:
  assumes "getUnsignedTx cli txIns amounts change script = Inr mtx" "0 \<le> sint change"
  shows "sum_list (map Value (TxOuts mtx)) = sum_list (map snd amounts) + change"
proof -
  from getUnsignedTx_outputs[OF assms(1)] obtain outs where
    o: "destOutputs cli amounts = Inr outs" and
    t: "(if 0 < sint change
      then \<exists>pk. PayToScriptHashScript cli script = Inr pk \<and> TxOuts mtx = outs @ [\<lparr>Value = change, PkScript = pk\<rparr>]
      else TxOuts mtx = outs)" by blast
  have v: "map Value outs = map snd amounts" by (rule destOutputs_values[OF o])
  show ?thesis
  proof (cases "0 < sint change")
    case True
    with t v show ?thesis by auto
  next
    case False
    with assms(2) have "sint change = 0" by simp
    then have "change = 0" by (simp add: signed_eq_0_iff)
    with False t v show ?thesis by auto
  qed
qed

lemma makeBtcTx_success:
  assumes "makeBtcTx cli service amounts = (Inr u, service')"
  shows "\<exists>amountSum script addr txIns sumv mtx buf.
      amounts \<noteq> [] \<and> sumAmounts amounts 0 = Inr amountSum \<and> sint amountSum \<le> MaxSatoshi \<and>
      buildScript cli = Inr script \<and> NewAddressScriptHash cli script = Inr addr \<and>
      GetUtxosFromSpv cli addr amountSum (FEE cli) (PreExec service) = Inr (txIns, sumv) \<and>
      0 < sint sumv \<and> txIns \<noteq> [] \<and> 0 \<le> sint (sumv - amountSum - FEE cli) \<and>
      getUnsignedTx cli txIns amounts (sumv - amountSum - FEE cli) script = Inr mtx \<and>
      BtcEncode cli mtx = Inr buf \<and>
      service' = service\<lparr>CacheDB := Put (CacheDB service) (BTC_TX_PREFIX cli) buf,
                 Notifications := Notifications service @
                   [\<lparr>ContractAddress = CrossChainManagerContractAddress cli,
                     States = [''makeBtcTx'', EncodeToString buf]\<rparr>]\<rparr>"
  using assms
  by (auto simp: makeBtcTx_def Let_def split: if_splits sum.splits prod.splits)

lemma makeBtcTx_error_keeps_service:
  "makeBtcTx cli service amounts = (Inl e, service') \<Longrightarrow> service' = service"
  by (auto simp: makeBtcTx_def Let_def split: if_splits sum.splits prod.splits)

text \<open>
  C7. Once the amounts are validated and the oracle has returned \<open>(txIns, sum)\<close>,
  \<open>makeBtcTx\<close> fails with "utxo not found" when the total is not positive or no output is
  returned, and with "not enough utxos" when \<open>change = sum - amountSum - FEE\<close> is negative;
  both leave the service untouched. When it succeeds, the change is not negative, the
  transaction holds one output per destination carrying exactly its amount (followed by
  the change output when the change is positive), the outputs total
  \<open>sum(amounts) + change = sum - FEE\<close>, and the encoding of that transaction is what is
  stored under \<open>BTC_TX_PREFIX\<close>.
\<close>

theorem makeBtcTx_change:
  assumes "amounts \<noteq> []" "sumAmounts amounts 0 = Inr amountSum" "sint amountSum \<le> MaxSatoshi"
      "buildScript cli = Inr script" "NewAddressScriptHash cli script = Inr addr"
      "GetUtxosFromSpv cli addr amountSum (FEE cli) (PreExec service) = Inr (txIns, sumv)"
  shows "(sint sumv \<le> 0 \<or> txIns = [] \<longrightarrow> makeBtcTx cli service amounts = (Inl UtxoNotFound, service))
    \<and> (0 < sint sumv \<and> txIns \<noteq> [] \<and> sint (sumv - amountSum - FEE cli) < 0
         \<longrightarrow> makeBtcTx cli service amounts = (Inl NotEnoughUtxos, service))
    \<and> (\<forall>service'. makeBtcTx cli service amounts = (Inr (), service') \<longrightarrow>
         (\<exists>mtx buf outs.
            0 \<le> sint (sumv - amountSum - FEE cli) \<and>
            getUnsignedTx cli txIns amounts (sumv - amountSum - FEE cli) script = Inr mtx \<and>
            destOutputs cli amounts = Inr outs \<and> map Value outs = map snd amounts \<and>
            take (length amounts) (TxOuts mtx) = outs \<and>
            sum_list (map Value (TxOuts mtx)) = sum_list (map snd amounts) + (sumv - amountSum - FEE cli) \<and>
            sum_list (map Value (TxOuts mtx)) = sumv - FEE cli \<and>
            BtcEncode cli mtx = Inr buf \<and>
            CacheDB service' (BTC_TX_PREFIX cli) = Present buf))"
proof (intro conjI impI allI)
  assume "sint sumv \<le> 0 \<or> txIns = []"
  with assms show "makeBtcTx cli service amounts = (Inl UtxoNotFound, service)"
    by (auto simp: makeBtcTx_def)
next
  assume "0 < sint sumv \<and> txIns \<noteq> [] \<and> sint (sumv - amountSum - FEE cli) < 0"
  with assms show "makeBtcTx cli service amounts = (Inl NotEnoughUtxos, service)"
    by (auto simp: makeBtcTx_def Let_def)
next
  fix service'
  assume ok: "makeBtcTx cli service amounts = (Inr (), service')"
  from makeBtcTx_success[OF ok] assms obtain mtx buf where
    ch: "0 \<le> sint (sumv - amountSum - FEE cli)" and
    g: "getUnsignedTx cli txIns amounts (sumv - amountSum - FEE cli) script = Inr mtx" and
    e: "BtcEncode cli mtx = Inr buf" and
    s: "service' = service\<lparr>CacheDB := Put (CacheDB service) (BTC_TX_PREFIX cli) buf,
                 Notifications := Notifications service @
                   [\<lparr>ContractAddress = CrossChainManagerContractAddress cli,
                     States = [''makeBtcTx'', EncodeToString buf]\<rparr>]\<rparr>"
    by auto
  from getUnsignedTx_outputs[OF g] obtain outs where
    o: "destOutputs cli amounts = Inr outs" and
    t: "(if 0 < sint (sumv - amountSum - FEE cli)
      then \<exists>pk. PayToScriptHashScript cli script = Inr pk \<and> TxOuts mtx = outs @ [\<lparr>Value = sumv - amountSum - FEE cli, PkScript = pk\<rparr>]
      else TxOuts mtx = outs)" by blast
  have v: "map Value outs = map snd amounts" by (rule destOutputs_values[OF o])
  then have l: "length outs = length amounts" by (metis length_map)
  have tk: "take (length amounts) (TxOuts mtx) = outs"
    using t l by (auto split: if_splits)
  have tot: "sum_list (map Value (TxOuts mtx)) = sum_list (map snd amounts) + (sumv - amountSum - FEE cli)"
    by (rule getUnsignedTx_total[OF g ch])
  have "amountSum = sum_list (map snd amounts)"
    using sumAmounts_total[OF assms(2)] by simp
  with tot have tot2: "sum_list (map Value (TxOuts mtx)) = sumv - FEE cli" by simp
  have "CacheDB service' (BTC_TX_PREFIX cli) = Present buf"
    using s by (simp add: Put_def)
  with ch g o v tk tot tot2 e
  show "\<exists>mtx buf outs.
            0 \<le> sint (sumv - amountSum - FEE cli) \<and>
            getUnsignedTx cli txIns amounts (sumv - amountSum - FEE cli) script = Inr mtx \<and>
            destOutputs cli amounts = Inr outs \<and> map Value outs = map snd amounts \<and>
            take (length amounts) (TxOuts mtx) = outs \<and>
            sum_list (map Value (TxOuts mtx)) = sum_list (map snd amounts) + (sumv - amountSum - FEE cli) \<and>
            sum_list (map Value (TxOuts mtx)) = sumv - FEE cli \<and>
            BtcEncode cli mtx = Inr buf \<and>
            CacheDB service' (BTC_TX_PREFIX cli) = Present buf"
    by blast
qed

theorem makeBtcTx_change_witness:
  "makeBtcTx (example_cli 100 6 400000) (example_service []) [(''addrA'', 500000)]
     = (Inl NotEnoughUtxos, example_service []) \<and>
   (\<exists>service' mtx buf.
      makeBtcTx (example_cli 100 6 600000) (example_service []) [(''addrA'', 500000)]
        = (Inr (), service') \<and>
      map Value (TxOuts mtx) = [500000, 99000] \<and>
      sum_list (map Value (TxOuts mtx)) = 500000 + 99000 \<and>
      BtcEncode (example_cli 100 6 600000) mtx = Inr buf \<and>
      CacheDB service' (BTC_TX_PREFIX (example_cli 100 6 600000)) = Present buf)"
proof -
  let ?amounts = "[(''addrA'', 500000 :: 64 word)]"
  let ?txIns = "[\<lparr>PreviousOutPointHash = [1], PreviousOutPointIndex = 0\<rparr>]"
  have s: "sumAmounts ?amounts 0 = Inr 500000" "?amounts \<noteq> []" "sint (500000 :: 64 word) \<le> MaxSatoshi"
    by (simp_all add: MaxSatoshi_def)
  have e4: "buildScript (example_cli 100 6 400000) = Inr [82]"
    "NewAddressScriptHash (example_cli 100 6 400000) [82] = Inr ''custody''"
    "GetUtxosFromSpv (example_cli 100 6 400000) ''custody'' 500000 (FEE (example_cli 100 6 400000))
        (PreExec (example_service [])) = Inr (?txIns, 400000)"
    by (simp_all add: example_cli_def example_utxos_def)
  have e6: "buildScript (example_cli 100 6 600000) = Inr [82]"
    "NewAddressScriptHash (example_cli 100 6 600000) [82] = Inr ''custody''"
    "GetUtxosFromSpv (example_cli 100 6 600000) ''custody'' 500000 (FEE (example_cli 100 6 600000))
        (PreExec (example_service [])) = Inr (?txIns, 600000)"
    by (simp_all add: example_cli_def example_utxos_def)
  have fee: "FEE (example_cli 100 6 400000) = 1000" "FEE (example_cli 100 6 600000) = 1000"
    by (simp_all add: example_cli_def)
  have low: "makeBtcTx (example_cli 100 6 400000) (example_service []) ?amounts
     = (Inl NotEnoughUtxos, example_service [])"
    using makeBtcTx_change[OF s(2) s(1) s(3) e4] by (simp add: fee)
  have run: "\<exists>service'. makeBtcTx (example_cli 100 6 600000) (example_service []) ?amounts = (Inr (), service')"
    by (simp add: makeBtcTx_def MaxSatoshi_def Let_def getUnsignedTx_def example_cli_def
        example_utxos_def example_service_def example_PayToAddrScript_def example_BtcEncode_def)
  then obtain service' where r: "makeBtcTx (example_cli 100 6 600000) (example_service []) ?amounts = (Inr (), service')"
    by blast
  from makeBtcTx_change[OF s(2) s(1) s(3) e6] r
  obtain mtx buf outs where
    m: "destOutputs (example_cli 100 6 600000) ?amounts = Inr outs"
       "map Value outs = map snd ?amounts"
       "getUnsignedTx (example_cli 100 6 600000) ?txIns ?amounts (600000 - 500000 - 1000) [82] = Inr mtx"
       "sum_list (map Value (TxOuts mtx)) = 600000 - FEE (example_cli 100 6 600000)"
       "BtcEncode (example_cli 100 6 600000) mtx = Inr buf"
       "CacheDB service' (BTC_TX_PREFIX (example_cli 100 6 600000)) = Present buf"
    by (auto simp: fee)
  have mv: "map Value (TxOuts mtx) = [500000, 99000]"
    using m(1,3) by (auto simp: getUnsignedTx_def split: sum.splits)
  from low r mv m(5,6) show ?thesis
    by (intro conjI exI[of _ service'] exI[of _ mtx] exI[of _ buf]) simp_all
qed












section \<open>Properties of the node manager\<close>

subsection \<open>The peer count\<close>

lemma activeNum_Nil: "activeNum [] = 0"
  by (simp add: activeNum_def)

lemma activeNum_Cons:
  "activeNum ((k, v) # m) = (if isActive v then Suc (activeNum m) else activeNum m)"
  by (simp add: activeNum_def isActive_def)

lemma activeNum_update_le: "activeNum (AList.update k v m) \<le> Suc (activeNum m)"
proof (induction m)
  case Nil
  then show ?case by (simp add: activeNum_Cons activeNum_Nil)
next
  case (Cons p m)
  obtain k' v' where p: "p = (k', v')" by (cases p)
  show ?case using Cons by (simp add: p activeNum_Cons)
qed

lemma activeNum_update_quit:
  assumes "map_of m k = Some v" "isActive v" "\<not> isActive v'"
  shows "Suc (activeNum (AList.update k v' m)) = activeNum m"
  using assms
proof (induction m)
  case Nil
  then show ?case by simp
next
  case (Cons p m)
  obtain k' v0 where p: "p = (k', v0)" by (cases p)
  show ?case
  proof (cases "k' = k")
    case True
    with Cons.prems p show ?thesis by (simp add: activeNum_Cons)
  next
    case False
    with Cons p show ?thesis by (simp add: activeNum_Cons)
  qed
qed

lemma activeNum_update_same:
  assumes "map_of m k = Some v" "isActive v = isActive v'"
  shows "activeNum (AList.update k v' m) = activeNum m"
  using assms
proof (induction m)
  case Nil
  then show ?case by simp
next
  case (Cons p m)
  obtain k' v0 where p: "p = (k', v0)" by (cases p)
  show ?case
  proof (cases "k' = k")
    case True
    with Cons.prems p show ?thesis by (simp add: activeNum_Cons)
  next
    case False
    with Cons p show ?thesis by (simp add: activeNum_Cons)
  qed
qed

text \<open>QuitNode up to its peer-count guard.\<close>

lemma QuitNode_guard:
  assumes "deserPeerParam2 d (GetInput native) = Some params"
    "length (PeerParam2.Address params) = 20"
    "CheckWitness native (PeerParam2.Address params)"
    "GetView st = Inr view" "GetPeerPoolMap st view = Inr peerPoolMap"
    "map_of peerPoolMap (PeerParam2.PeerPubkey params) = Some peerPoolItem"
    "isActive peerPoolItem"
    "PeerParam2.Address params = PeerPoolItem.Address peerPoolItem"
    "GetConfig st = Inr config0" "getPreConfig st = Inr preConfig"
    "(if SetView preConfig = view then PreConfig.Configuration preConfig else Some config0)
       = Some config"
  shows "QuitNode d native st =
     (if activeNum peerPoolMap \<le> unat (Configuration.K config)
      then (Inl (Err ''quitNode, num of peers is less than K''), st)
      else (Inr True,
            st\<lparr>PEER_POOL := (PEER_POOL st)(view := Present
              (AList.update (PeerParam2.PeerPubkey params)
                 (peerPoolItem\<lparr>Status := QuitingStatus\<rparr>) peerPoolMap))\<rparr>))"
proof -
  have s: "\<not> (PeerPoolItem.Status peerPoolItem \<noteq> ConsensusStatus \<and>
       PeerPoolItem.Status peerPoolItem \<noteq> CandidateStatus)"
    using assms(7) by (auto simp: isActive_def)
  show ?thesis
    unfolding QuitNode_def
    using assms(1-6,8-11) s
    by (simp add: AddressParseFromBytes_def ValidateOwner_def putPeerPoolMap_def Let_def
        del: AList.update.simps)
qed

lemma QuitNode_error_keeps_store:
  "QuitNode d native st = (Inl e, st') \<Longrightarrow> st' = st"
  by (auto simp: QuitNode_def Let_def putPeerPoolMap_def
      split: option.splits sum.splits if_splits)

lemma ReducePos_error_keeps_store:
  "ReducePos d native st = (Inl e, st') \<Longrightarrow> st' = st"
  by (auto simp: ReducePos_def Let_def putPeerPoolMap_def
      split: option.splits sum.splits if_splits)

lemma UpdateConfig_error_keeps_store:
  "UpdateConfig d native st = (Inl e, st') \<Longrightarrow> st' = st"
  by (auto simp: UpdateConfig_def Let_def putPreConfig_def
      split: option.splits sum.splits if_splits)

lemma UpdateGlobalParam_error_keeps_store:
  "UpdateGlobalParam d native st = (Inl e, st') \<Longrightarrow> st' = st"
  by (auto simp: UpdateGlobalParam_def Let_def putGlobalParam_def
      split: option.splits sum.splits if_splits)

lemma WhiteNode_error_keeps_store:
  "WhiteNode d native st = (Inl e, st') \<Longrightarrow> st' = st"
  by (auto simp: WhiteNode_def Let_def
      split: option.splits sum.splits if_splits slot.splits)

lemma RegisterCandidate_error:
  assumes "RegisterCandidate d native st = (Inl e, st')"
  shows "st' = st \<or>
    (\<exists>params. deserRegisterPeerParam d (GetInput native) = Some params \<and>
       putPeerApply st params = Inr st' \<and>
       \<not> transferOnt d (ONT_TRANSFERS st') (RegisterPeerParam.Address params)
            (NodeManagerContractAddress d) (RegisterPeerParam.Pos params) \<and>
       e = Wrapped ''registerCandidate, ont transfer error''
             (Err ''appCallTransferOnt, appCall error''))"
  using assms
  by (auto simp: RegisterCandidate_def Let_def appCallTransferOnt_def AddressParseFromBytes_def
      split: option.splits sum.splits if_splits slot.splits)

lemma AddPos_error:
  assumes "AddPos d native st = (Inl e, st')"
  shows "st' = st \<or>
    (\<exists>params view peerPoolMap peerPoolItem.
       deserRegisterPeerParam d (GetInput native) = Some params \<and>
       GetView st = Inr view \<and> GetPeerPoolMap st view = Inr peerPoolMap \<and>
       map_of peerPoolMap (RegisterPeerParam.PeerPubkey params) = Some peerPoolItem \<and>
       st' = st\<lparr>PEER_POOL := (PEER_POOL st)(view := Present
              (AList.update (RegisterPeerParam.PeerPubkey params)
                 (peerPoolItem\<lparr>PeerPoolItem.Pos :=
                    PeerPoolItem.Pos peerPoolItem + RegisterPeerParam.Pos params\<rparr>)
                 peerPoolMap))\<rparr> \<and>
       \<not> transferOnt d (ONT_TRANSFERS st) (RegisterPeerParam.Address params)
            (NodeManagerContractAddress d) (RegisterPeerParam.Pos params) \<and>
       e = Wrapped ''addPos, ont transfer error'' (Err ''appCallTransferOnt, appCall error''))"
  using assms
  by (auto simp: AddPos_def Let_def appCallTransferOnt_def AddressParseFromBytes_def
        putPeerPoolMap_def
      simp del: AList.update.simps
      split: option.splits sum.splits if_splits slot.splits)

(*GOV_THEOREMS*)
subsection \<open>Quitting\<close>

text \<open>
  C4 (as amended). When \<open>QuitNode\<close> reaches its peer-count guard, the effective
  configuration is the staged one if it was staged for the current view and the active one
  otherwise. The call is rejected, with the store unchanged, exactly when the number of
  Candidate or Consensus peers before the quit is at most the effective \<open>K\<close>; otherwise the
  peer's status becomes Quitting, the count drops by one and is still at least \<open>K\<close>.
\<close>

theorem QuitNode_liveness_guard:
  assumes "deserPeerParam2 d (GetInput native) = Some params"
    "length (PeerParam2.Address params) = 20"
    "CheckWitness native (PeerParam2.Address params)"
    "GetView st = Inr view" "GetPeerPoolMap st view = Inr peerPoolMap"
    "map_of peerPoolMap (PeerParam2.PeerPubkey params) = Some peerPoolItem"
    "PeerPoolItem.Status peerPoolItem = CandidateStatus \<or>
     PeerPoolItem.Status peerPoolItem = ConsensusStatus"
    "PeerParam2.Address params = PeerPoolItem.Address peerPoolItem"
    "GetConfig st = Inr config0" "getPreConfig st = Inr preConfig"
    "(if SetView preConfig = view then PreConfig.Configuration preConfig else Some config0)
       = Some config"
  shows "(activeNum peerPoolMap \<le> unat (Configuration.K config) \<longrightarrow>
            QuitNode d native st = (Inl (Err ''quitNode, num of peers is less than K''), st)) \<and>
         (unat (Configuration.K config) < activeNum peerPoolMap \<longrightarrow>
            (\<exists>peerPoolMap'.
               peerPoolMap' = AList.update (PeerParam2.PeerPubkey params)
                  (peerPoolItem\<lparr>Status := QuitingStatus\<rparr>) peerPoolMap \<and>
               QuitNode d native st =
                 (Inr True, st\<lparr>PEER_POOL := (PEER_POOL st)(view := Present peerPoolMap')\<rparr>) \<and>
               Suc (activeNum peerPoolMap') = activeNum peerPoolMap \<and>
               unat (Configuration.K config) \<le> activeNum peerPoolMap'))"
proof -
  have act: "isActive peerPoolItem" using assms(7) by (simp add: isActive_def)
  have g: "QuitNode d native st =
     (if activeNum peerPoolMap \<le> unat (Configuration.K config)
      then (Inl (Err ''quitNode, num of peers is less than K''), st)
      else (Inr True,
            st\<lparr>PEER_POOL := (PEER_POOL st)(view := Present
              (AList.update (PeerParam2.PeerPubkey params)
                 (peerPoolItem\<lparr>Status := QuitingStatus\<rparr>) peerPoolMap))\<rparr>))"
    by (rule QuitNode_guard[OF assms(1-6) act assms(8-11)])
  have "\<not> isActive (peerPoolItem\<lparr>Status := QuitingStatus\<rparr>)" by (simp add: isActive_def)
  from activeNum_update_quit[OF assms(6) act this]
  have n: "Suc (activeNum (AList.update (PeerParam2.PeerPubkey params)
                 (peerPoolItem\<lparr>Status := QuitingStatus\<rparr>) peerPoolMap)) = activeNum peerPoolMap" .
  show ?thesis using g n by auto
qed

theorem QuitNode_liveness_guard_witness:
  "QuitNode example_deps (example_native [1, 1] 1) (example_store 7 7) =
     (Inl (Err ''quitNode, num of peers is less than K''), example_store 7 7) \<and>
   fst (QuitNode example_deps (example_native [1, 1] 1) (example_store 9 7)) = Inr True \<and>
   currentActiveNum (snd (QuitNode example_deps (example_native [1, 1] 1) (example_store 9 7))) = 8"
proof -
  let ?params = "\<lparr>PeerParam2.PeerPubkey = ''01'', PeerParam2.Address = replicate 20 1\<rparr>"
  let ?native = "example_native [1, 1] 1"
  let ?config = "\<lparr>N = 7, C = 2, K = 7, L = 112, BlockMsgDelay = 5000, HashMsgDelay = 5000,
                  PeerHandshakeTimeout = 10, MaxBlockChangeView = 10000\<rparr>"
  let ?pre = "\<lparr>Configuration = None, SetView = 0\<rparr>"
  have h1: "deserPeerParam2 example_deps (GetInput ?native) = Some ?params" by code_simp
  have h2: "length (PeerParam2.Address ?params) = 20" by simp
  have h3: "CheckWitness ?native (PeerParam2.Address ?params)" by code_simp
  have h4: "GetView (example_store 7 7) = Inr 3" by code_simp
  have h5: "GetPeerPoolMap (example_store 7 7) 3 = Inr (example_pool 7)" by code_simp
  have h6: "map_of (example_pool 7) (PeerParam2.PeerPubkey ?params) = Some (snd (example_peer 1))"
    by code_simp
  have h7: "PeerPoolItem.Status (snd (example_peer 1)) = CandidateStatus \<or>
     PeerPoolItem.Status (snd (example_peer 1)) = ConsensusStatus" by code_simp
  have h8: "PeerParam2.Address ?params = PeerPoolItem.Address (snd (example_peer 1))" by code_simp
  have h9: "GetConfig (example_store 7 7) = Inr ?config" by code_simp
  have h10: "getPreConfig (example_store 7 7) = Inr ?pre" by code_simp
  have h11: "(if SetView ?pre = 3 then PreConfig.Configuration ?pre else Some ?config) = Some ?config"
    by simp
  have n: "activeNum (example_pool 7) \<le> unat (Configuration.K ?config)" by code_simp
  from QuitNode_liveness_guard[OF h1 h2 h3 h4 h5 h6 h7 h8 h9 h10 h11] n
  have a: "QuitNode example_deps ?native (example_store 7 7) =
     (Inl (Err ''quitNode, num of peers is less than K''), example_store 7 7)" by blast
  have b: "fst (QuitNode example_deps ?native (example_store 9 7)) = Inr True" by code_simp
  have c: "currentActiveNum (snd (QuitNode example_deps ?native (example_store 9 7))) = 8"
    by code_simp
  from a b c show ?thesis by simp
qed

text \<open>
  C4 as stated fails: with 8 Consensus peers, \<open>K = 7\<close> and nothing staged, the quit of
  peer \<open>01\<close> is accepted although it leaves exactly 7 = \<open>K\<close> active peers.
\<close>

theorem QuitNode_leaves_K_counterexample:
  "GetConfig (example_store 8 7) =
     Inr \<lparr>N = 7, C = 2, K = 7, L = 112, BlockMsgDelay = 5000, HashMsgDelay = 5000,
          PeerHandshakeTimeout = 10, MaxBlockChangeView = 10000\<rparr> \<and>
   getPreConfig (example_store 8 7) = Inr \<lparr>Configuration = None, SetView = 0\<rparr> \<and>
   currentActiveNum (example_store 8 7) = 8 \<and>
   fst (QuitNode example_deps (example_native [1, 1] 1) (example_store 8 7)) = Inr True \<and>
   currentActiveNum (snd (QuitNode example_deps (example_native [1, 1] 1) (example_store 8 7))) = 7"
  by code_simp

subsection \<open>Stake reduction\<close>

text \<open>
  C9. \<open>ReducePos\<close> has no bound check: for a Candidate or Consensus peer whose owner
  signs the call, a reduction strictly greater than the peer's stake succeeds, \<open>Pos\<close>
  becomes \<open>(old Pos - params.Pos) mod 2^64\<close> and \<open>LockPos\<close> becomes
  \<open>(old LockPos + params.Pos) mod 2^64\<close>.
\<close>

theorem ReducePos_no_bound_check:
  assumes "deserRegisterPeerParam d (GetInput native) = Some params"
    "length (RegisterPeerParam.Address params) = 20"
    "CheckWitness native (RegisterPeerParam.Address params)"
    "GetView st = Inr view" "GetPeerPoolMap st view = Inr peerPoolMap"
    "map_of peerPoolMap (RegisterPeerParam.PeerPubkey params) = Some peerPoolItem"
    "PeerPoolItem.Status peerPoolItem = CandidateStatus \<or>
     PeerPoolItem.Status peerPoolItem = ConsensusStatus"
    "RegisterPeerParam.Address params = PeerPoolItem.Address peerPoolItem"
    "PeerPoolItem.Pos peerPoolItem < RegisterPeerParam.Pos params"
  shows "\<exists>peerPoolItem'.
     peerPoolItem' = peerPoolItem\<lparr>
        PeerPoolItem.Pos := PeerPoolItem.Pos peerPoolItem - RegisterPeerParam.Pos params,
        LockPos := LockPos peerPoolItem + RegisterPeerParam.Pos params\<rparr> \<and>
     ReducePos d native st =
       (Inr True, st\<lparr>PEER_POOL := (PEER_POOL st)(view := Present
          (AList.update (RegisterPeerParam.PeerPubkey params) peerPoolItem' peerPoolMap))\<rparr>) \<and>
     uint (PeerPoolItem.Pos peerPoolItem') =
       (uint (PeerPoolItem.Pos peerPoolItem) - uint (RegisterPeerParam.Pos params)) mod 2 ^ 64 \<and>
     unat (PeerPoolItem.Pos peerPoolItem') =
       unat (PeerPoolItem.Pos peerPoolItem) + 2 ^ 64 - unat (RegisterPeerParam.Pos params) \<and>
     unat (LockPos peerPoolItem') =
       (unat (LockPos peerPoolItem) + unat (RegisterPeerParam.Pos params)) mod 2 ^ 64"
proof -
  let ?p = "PeerPoolItem.Pos peerPoolItem" and ?q = "RegisterPeerParam.Pos params"
  have s: "\<not> (PeerPoolItem.Status peerPoolItem \<noteq> ConsensusStatus \<and>
       PeerPoolItem.Status peerPoolItem \<noteq> CandidateStatus)"
    using assms(7) by auto
  have run: "ReducePos d native st =
       (Inr True, st\<lparr>PEER_POOL := (PEER_POOL st)(view := Present
          (AList.update (RegisterPeerParam.PeerPubkey params)
             (peerPoolItem\<lparr>PeerPoolItem.Pos := ?p - ?q, LockPos := LockPos peerPoolItem + ?q\<rparr>)
             peerPoolMap))\<rparr>)"
    unfolding ReducePos_def
    using assms(1-6,8) s
    by (simp add: AddressParseFromBytes_def ValidateOwner_def putPeerPoolMap_def Let_def
        del: AList.update.simps)
  have lt: "unat ?p < unat ?q" using assms(9) by (simp add: word_less_nat_alt)
  have q: "unat ?q < 2 ^ 64" using unsigned_less[of ?q] by simp
  have sub: "unat (?p - ?q) = unat ?p + 2 ^ 64 - unat ?q"
    using lt by (simp add: unat_sub_if_size word_size)
  have m: "uint (?p - ?q) = (uint ?p - uint ?q) mod 2 ^ 64"
    by (simp add: uint_word_ariths)
  have add: "unat (LockPos peerPoolItem + ?q) = (unat (LockPos peerPoolItem) + unat ?q) mod 2 ^ 64"
    by (simp add: unat_word_ariths)
  show ?thesis using run sub m add by simp
qed

theorem ReducePos_no_bound_check_witness:
  "fst (ReducePos example_deps (example_native [1, 1, 200] 1) (example_store 8 7)) = Inr True \<and>
   (\<exists>peerPoolMap peerPoolItem.
      PEER_POOL (snd (ReducePos example_deps (example_native [1, 1, 200] 1) (example_store 8 7))) 3
        = Present peerPoolMap \<and>
      map_of peerPoolMap ''01'' = Some peerPoolItem \<and>
      PeerPoolItem.Pos peerPoolItem = 18446744073709551516 \<and>
      LockPos peerPoolItem = 200)"
proof -
  let ?params = "\<lparr>RegisterPeerParam.PeerPubkey = ''01'',
                  RegisterPeerParam.Address = replicate 20 1,
                  RegisterPeerParam.Pos = 200\<rparr>"
  let ?native = "example_native [1, 1, 200] 1"
  let ?item = "snd (example_peer 1)"
  have h1: "deserRegisterPeerParam example_deps (GetInput ?native) = Some ?params" by code_simp
  have h2: "length (RegisterPeerParam.Address ?params) = 20" by simp
  have h3: "CheckWitness ?native (RegisterPeerParam.Address ?params)" by code_simp
  have h4: "GetView (example_store 8 7) = Inr 3" by code_simp
  have h5: "GetPeerPoolMap (example_store 8 7) 3 = Inr (example_pool 8)" by code_simp
  have h6: "map_of (example_pool 8) (RegisterPeerParam.PeerPubkey ?params) = Some ?item"
    by code_simp
  have h7: "PeerPoolItem.Status ?item = CandidateStatus \<or>
     PeerPoolItem.Status ?item = ConsensusStatus" by code_simp
  have h8: "RegisterPeerParam.Address ?params = PeerPoolItem.Address ?item" by code_simp
  have h9: "PeerPoolItem.Pos ?item < RegisterPeerParam.Pos ?params" by code_simp
  from ReducePos_no_bound_check[OF h1 h2 h3 h4 h5 h6 h7 h8 h9]
  have run: "ReducePos example_deps ?native (example_store 8 7) =
       (Inr True, (example_store 8 7)\<lparr>PEER_POOL := (PEER_POOL (example_store 8 7))(3 := Present
          (AList.update (RegisterPeerParam.PeerPubkey ?params)
             (?item\<lparr>PeerPoolItem.Pos := PeerPoolItem.Pos ?item - RegisterPeerParam.Pos ?params,
                     LockPos := LockPos ?item + RegisterPeerParam.Pos ?params\<rparr>)
             (example_pool 8)))\<rparr>)"
    by blast
  have look: "map_of (AList.update (RegisterPeerParam.PeerPubkey ?params)
             (?item\<lparr>PeerPoolItem.Pos := PeerPoolItem.Pos ?item - RegisterPeerParam.Pos ?params,
                     LockPos := LockPos ?item + RegisterPeerParam.Pos ?params\<rparr>)
             (example_pool 8)) ''01''
      = Some (?item\<lparr>PeerPoolItem.Pos := PeerPoolItem.Pos ?item - RegisterPeerParam.Pos ?params,
                     LockPos := LockPos ?item + RegisterPeerParam.Pos ?params\<rparr>)"
    by (simp add: update_conv')
  have vals: "PeerPoolItem.Pos ?item - RegisterPeerParam.Pos ?params = 18446744073709551516"
    "LockPos ?item + RegisterPeerParam.Pos ?params = 200"
    by (simp_all add: example_peer_def)
  show ?thesis
    unfolding run using look vals by simp
qed

subsection \<open>Staged configuration\<close>


lemma UpdateConfig_accepts:
  assumes "AddressFromBookkeepers d = Inr operatorAddress" "CheckWitness native operatorAddress"
    "deserConfiguration d (GetInput native) = Some configuration"
    "GetView st = Inr view" "GetPeerPoolMap st view = Inr peerPoolMap"
    "Configuration.C configuration \<noteq> 0"
    "unat (Configuration.K configuration) \<le> activeNum peerPoolMap"
    "\<not> Configuration.L configuration < 16 * Configuration.K configuration"
    "Configuration.K configuration \<noteq> 0"
    "Configuration.L configuration mod Configuration.K configuration = 0"
    "\<not> Configuration.K configuration < 2 * Configuration.C configuration + 1"
    "\<not> Configuration.N configuration < Configuration.K configuration"
    "\<not> Configuration.K configuration < 7"
    "\<not> BlockMsgDelay configuration < 5000" "\<not> HashMsgDelay configuration < 5000"
    "\<not> PeerHandshakeTimeout configuration < 10" "\<not> MaxBlockChangeView configuration < 10000"
  shows "UpdateConfig d native st =
     (Inr True, st\<lparr>PRE_CONFIG := Present \<lparr>Configuration = Some configuration, SetView = view\<rparr>\<rparr>)"
  using assms
  by (simp add: UpdateConfig_def Let_def putPreConfig_def ValidateOwner_def)














subsection \<open>The candidate cap\<close>

lemma ApproveCandidate_indexed:
  assumes "deserPeerParam d (GetInput native) = Some params"
    "AddressFromBookkeepers d = Inr operatorAddress" "CheckWitness native operatorAddress"
    "GetPeeApply st (PeerParam.PeerPubkey params) = Inr (Some peer)"
    "getGlobalParam st = Inr globalParam"
    "\<not> RegisterPeerParam.Pos peer < ucast (MinInitStake globalParam)"
    "DecodeString (RegisterPeerParam.PeerPubkey peer) = Some peerPubkeyPrefix"
    "PEER_INDEX st peerPubkeyPrefix = Present index"
    "GetView st = Inr view" "GetPeerPoolMap st view = Inr peerPoolMap"
  shows "ApproveCandidate d native st =
     (if unat (CandidateNum globalParam) \<le> activeNum peerPoolMap
      then (Inl (Err ''approveCandidate, num of candidate node is full''), st)
      else (Inr True,
            st\<lparr>PEER_POOL := (PEER_POOL st)(view := Present
              (AList.update (PeerParam.PeerPubkey params)
                 \<lparr>Index = index,
                  PeerPoolItem.PeerPubkey = RegisterPeerParam.PeerPubkey peer,
                  PeerPoolItem.Address = RegisterPeerParam.Address peer,
                  Status = CandidateStatus,
                  PeerPoolItem.Pos = RegisterPeerParam.Pos peer,
                  LockPos = 0\<rparr> peerPoolMap))\<rparr>))"
  using assms
  by (simp add: ApproveCandidate_def ValidateOwner_def putPeerPoolMap_def Let_def
      del: AList.update.simps)

lemma ApproveCandidate_fresh_index:
  assumes "deserPeerParam d (GetInput native) = Some params"
    "AddressFromBookkeepers d = Inr operatorAddress" "CheckWitness native operatorAddress"
    "GetPeeApply st (PeerParam.PeerPubkey params) = Inr (Some peer)"
    "getGlobalParam st = Inr globalParam"
    "\<not> RegisterPeerParam.Pos peer < ucast (MinInitStake globalParam)"
    "DecodeString (RegisterPeerParam.PeerPubkey peer) = Some peerPubkeyPrefix"
    "PEER_INDEX st peerPubkeyPrefix = Absent" "getCandidateIndex st = Inr candidateIndex"
    "GetView st = Inr view" "GetPeerPoolMap st view = Inr peerPoolMap"
  shows "ApproveCandidate d native st =
     (if unat (CandidateNum globalParam) \<le> activeNum peerPoolMap
      then (Inl (Err ''approveCandidate, num of candidate node is full''),
            st\<lparr>CANDIDITE_INDEX := Present (candidateIndex + 1),
               PEER_INDEX := (PEER_INDEX st)(peerPubkeyPrefix := Present candidateIndex)\<rparr>)
      else (Inr True,
            st\<lparr>CANDIDITE_INDEX := Present (candidateIndex + 1),
               PEER_INDEX := (PEER_INDEX st)(peerPubkeyPrefix := Present candidateIndex),
               PEER_POOL := (PEER_POOL st)(view := Present
              (AList.update (PeerParam.PeerPubkey params)
                 \<lparr>Index = candidateIndex,
                  PeerPoolItem.PeerPubkey = RegisterPeerParam.PeerPubkey peer,
                  PeerPoolItem.Address = RegisterPeerParam.Address peer,
                  Status = CandidateStatus,
                  PeerPoolItem.Pos = RegisterPeerParam.Pos peer,
                  LockPos = 0\<rparr> peerPoolMap))\<rparr>))"
  using assms
  by (simp add: ApproveCandidate_def ValidateOwner_def putPeerPoolMap_def putCandidateIndex_def
      GetView_def GetPeerPoolMap_def Let_def del: AList.update.simps)

lemma ApproveCandidate_pool:
  assumes "ApproveCandidate d native st = (r, st')"
    "GetView st = Inr view" "GetPeerPoolMap st view = Inr peerPoolMap"
    "getGlobalParam st = Inr globalParam"
  shows "GOVERNANCE_VIEW st' = GOVERNANCE_VIEW st \<and> GLOBAL_PARAM st' = GLOBAL_PARAM st \<and>
    (\<exists>peerPoolMap'. PEER_POOL st' view = Present peerPoolMap' \<and>
       activeNum peerPoolMap' \<le> Suc (activeNum peerPoolMap) \<and>
       (isl r \<longrightarrow> peerPoolMap' = peerPoolMap) \<and>
       (\<not> isl r \<longrightarrow> activeNum peerPoolMap < unat (CandidateNum globalParam)))"
  using assms
  by (auto simp: ApproveCandidate_def GetView_def GetPeerPoolMap_def getGlobalParam_def
        getCandidateIndex_def putCandidateIndex_def putPeerPoolMap_def Let_def
        activeNum_update_le
      simp del: AList.update.simps
      split: option.splits sum.splits slot.splits if_splits prod.splits)

lemma ApproveCandidate_step:
  assumes "GetView st = Inr view" "GetPeerPoolMap st view = Inr peerPoolMap"
    "getGlobalParam st = Inr globalParam"
  shows "GetView (snd (ApproveCandidate d native st)) = Inr view \<and>
     getGlobalParam (snd (ApproveCandidate d native st)) = Inr globalParam \<and>
     (\<exists>peerPoolMap'. GetPeerPoolMap (snd (ApproveCandidate d native st)) view = Inr peerPoolMap' \<and>
        activeNum peerPoolMap' \<le> Suc (activeNum peerPoolMap) \<and>
        (isl (fst (ApproveCandidate d native st)) \<longrightarrow> peerPoolMap' = peerPoolMap) \<and>
        (\<not> isl (fst (ApproveCandidate d native st)) \<longrightarrow>
           activeNum peerPoolMap < unat (CandidateNum globalParam)))"
proof -
  from ApproveCandidate_pool[OF surjective_pairing assms, of d native]
  have p: "GOVERNANCE_VIEW (snd (ApproveCandidate d native st)) = GOVERNANCE_VIEW st"
    "GLOBAL_PARAM (snd (ApproveCandidate d native st)) = GLOBAL_PARAM st"
    "\<exists>peerPoolMap'. PEER_POOL (snd (ApproveCandidate d native st)) view = Present peerPoolMap' \<and>
       activeNum peerPoolMap' \<le> Suc (activeNum peerPoolMap) \<and>
       (isl (fst (ApproveCandidate d native st)) \<longrightarrow> peerPoolMap' = peerPoolMap) \<and>
       (\<not> isl (fst (ApproveCandidate d native st)) \<longrightarrow>
          activeNum peerPoolMap < unat (CandidateNum globalParam))"
    by blast+
  have v: "GetView (snd (ApproveCandidate d native st)) = Inr view"
    using assms(1) p(1) by (simp add: GetView_def)
  have g: "getGlobalParam (snd (ApproveCandidate d native st)) = Inr globalParam"
    using assms(3) p(2) by (simp add: getGlobalParam_def)
  from p(3) obtain peerPoolMap' where
    m: "PEER_POOL (snd (ApproveCandidate d native st)) view = Present peerPoolMap'"
       "activeNum peerPoolMap' \<le> Suc (activeNum peerPoolMap)"
       "isl (fst (ApproveCandidate d native st)) \<longrightarrow> peerPoolMap' = peerPoolMap"
       "\<not> isl (fst (ApproveCandidate d native st)) \<longrightarrow>
          activeNum peerPoolMap < unat (CandidateNum globalParam)"
    by blast
  have "GetPeerPoolMap (snd (ApproveCandidate d native st)) view = Inr peerPoolMap'"
    using m(1) by (simp add: GetPeerPoolMap_def)
  with v g m(2,3,4) show ?thesis by blast
qed

lemma currentActiveNum_eq:
  "GetView st = Inr view \<Longrightarrow> GetPeerPoolMap st view = Inr peerPoolMap \<Longrightarrow>
   currentActiveNum st = activeNum peerPoolMap"
  by (simp add: currentActiveNum_def)

lemma ApproveCandidates_cap:
  assumes "GetView st = Inr view" "GetPeerPoolMap st view = Inr peerPoolMap"
    "getGlobalParam st = Inr globalParam"
  shows "GetView (ApproveCandidates d natives st) = Inr view \<and>
     getGlobalParam (ApproveCandidates d natives st) = Inr globalParam \<and>
     (\<exists>peerPoolMap'. GetPeerPoolMap (ApproveCandidates d natives st) view = Inr peerPoolMap') \<and>
     currentActiveNum (ApproveCandidates d natives st)
       \<le> max (currentActiveNum st) (unat (CandidateNum globalParam))"
  using assms
proof (induction natives arbitrary: st peerPoolMap)
  case Nil
  then show ?case by auto
next
  case (Cons native natives)
  let ?st1 = "snd (ApproveCandidate d native st)"
  from ApproveCandidate_step[OF Cons.prems, of d native] obtain peerPoolMap1 where
    s: "GetView ?st1 = Inr view" "getGlobalParam ?st1 = Inr globalParam"
       "GetPeerPoolMap ?st1 view = Inr peerPoolMap1"
       "activeNum peerPoolMap1 \<le> Suc (activeNum peerPoolMap)"
       "isl (fst (ApproveCandidate d native st)) \<longrightarrow> peerPoolMap1 = peerPoolMap"
       "\<not> isl (fst (ApproveCandidate d native st)) \<longrightarrow>
          activeNum peerPoolMap < unat (CandidateNum globalParam)"
    by blast
  have one: "activeNum peerPoolMap1 \<le> max (activeNum peerPoolMap) (unat (CandidateNum globalParam))"
    using s(4,5,6) by (cases "isl (fst (ApproveCandidate d native st))") auto
  have c0: "currentActiveNum st = activeNum peerPoolMap"
    by (rule currentActiveNum_eq[OF Cons.prems(1,2)])
  have c1: "currentActiveNum ?st1 = activeNum peerPoolMap1"
    by (rule currentActiveNum_eq[OF s(1,3)])
  from Cons.IH[OF s(1,3,2)]
  have ih: "GetView (ApproveCandidates d natives ?st1) = Inr view"
    "getGlobalParam (ApproveCandidates d natives ?st1) = Inr globalParam"
    "\<exists>peerPoolMap'. GetPeerPoolMap (ApproveCandidates d natives ?st1) view = Inr peerPoolMap'"
    "currentActiveNum (ApproveCandidates d natives ?st1)
       \<le> max (currentActiveNum ?st1) (unat (CandidateNum globalParam))"
    by blast+
  have "currentActiveNum (ApproveCandidates d natives ?st1)
       \<le> max (currentActiveNum st) (unat (CandidateNum globalParam))"
    using ih(4) one c0 c1 by simp
  with ih(1,2,3) show ?case by simp
qed

text \<open>
  C5 (as amended).  Let the store have a readable view, peer pool and global parameters.
  ApproveCandidate never succeeds while the number of Candidate and Consensus peers is at
  least CandidateNum: the call then returns an error and leaves the peer pool as it was.
  When the call passes every earlier check (parameters, operator witness, a stored
  application, the stake, the key prefix) the error is exactly
  "approveCandidate, num of candidate node is full", both when the peer already has an index
  and when a fresh index is assigned (which is written before the cap is checked); below the
  cap the call succeeds and stores the peer as a Candidate.  A call that fails an earlier check
  returns that check's error, not 'full'.  One call raises the count by at most one, and over
  any sequence of ApproveCandidate calls the count stays at most the larger of its initial
  value and CandidateNum; so from a state whose count is within CandidateNum it never exceeds
  CandidateNum.  A state whose count already exceeds CandidateNum is reachable through
  UpdateGlobalParam, which lowers CandidateNum without looking at the pool.
\<close>
theorem ApproveCandidate_candidate_cap:
  assumes "GetView st = Inr view" "GetPeerPoolMap st view = Inr peerPoolMap"
    "getGlobalParam st = Inr globalParam"
  shows "(unat (CandidateNum globalParam) \<le> activeNum peerPoolMap \<longrightarrow>
       isl (fst (ApproveCandidate d native st)) \<and>
       GetPeerPoolMap (snd (ApproveCandidate d native st)) view = Inr peerPoolMap) \<and>
    (\<forall>params operatorAddress peer peerPubkeyPrefix index.
       deserPeerParam d (GetInput native) = Some params \<and>
       AddressFromBookkeepers d = Inr operatorAddress \<and> CheckWitness native operatorAddress \<and>
       GetPeeApply st (PeerParam.PeerPubkey params) = Inr (Some peer) \<and>
       \<not> RegisterPeerParam.Pos peer < ucast (MinInitStake globalParam) \<and>
       DecodeString (RegisterPeerParam.PeerPubkey peer) = Some peerPubkeyPrefix \<and>
       PEER_INDEX st peerPubkeyPrefix = Present index \<longrightarrow>
       ApproveCandidate d native st =
         (if unat (CandidateNum globalParam) \<le> activeNum peerPoolMap
          then (Inl (Err ''approveCandidate, num of candidate node is full''), st)
          else (Inr True,
                st\<lparr>PEER_POOL := (PEER_POOL st)(view := Present
                  (AList.update (PeerParam.PeerPubkey params)
                     \<lparr>Index = index,
                      PeerPoolItem.PeerPubkey = RegisterPeerParam.PeerPubkey peer,
                      PeerPoolItem.Address = RegisterPeerParam.Address peer,
                      Status = CandidateStatus,
                      PeerPoolItem.Pos = RegisterPeerParam.Pos peer,
                      LockPos = 0\<rparr> peerPoolMap))\<rparr>))) \<and>
    (\<forall>params operatorAddress peer peerPubkeyPrefix candidateIndex.
       deserPeerParam d (GetInput native) = Some params \<and>
       AddressFromBookkeepers d = Inr operatorAddress \<and> CheckWitness native operatorAddress \<and>
       GetPeeApply st (PeerParam.PeerPubkey params) = Inr (Some peer) \<and>
       \<not> RegisterPeerParam.Pos peer < ucast (MinInitStake globalParam) \<and>
       DecodeString (RegisterPeerParam.PeerPubkey peer) = Some peerPubkeyPrefix \<and>
       PEER_INDEX st peerPubkeyPrefix = Absent \<and>
       getCandidateIndex st = Inr candidateIndex \<longrightarrow>
       ApproveCandidate d native st =
         (if unat (CandidateNum globalParam) \<le> activeNum peerPoolMap
          then (Inl (Err ''approveCandidate, num of candidate node is full''),
                st\<lparr>CANDIDITE_INDEX := Present (candidateIndex + 1),
                   PEER_INDEX := (PEER_INDEX st)(peerPubkeyPrefix := Present candidateIndex)\<rparr>)
          else (Inr True,
                st\<lparr>CANDIDITE_INDEX := Present (candidateIndex + 1),
                   PEER_INDEX := (PEER_INDEX st)(peerPubkeyPrefix := Present candidateIndex),
                   PEER_POOL := (PEER_POOL st)(view := Present
                  (AList.update (PeerParam.PeerPubkey params)
                     \<lparr>Index = candidateIndex,
                      PeerPoolItem.PeerPubkey = RegisterPeerParam.PeerPubkey peer,
                      PeerPoolItem.Address = RegisterPeerParam.Address peer,
                      Status = CandidateStatus,
                      PeerPoolItem.Pos = RegisterPeerParam.Pos peer,
                      LockPos = 0\<rparr> peerPoolMap))\<rparr>))) \<and>
    currentActiveNum (snd (ApproveCandidate d native st)) \<le> Suc (currentActiveNum st) \<and>
    currentActiveNum (ApproveCandidates d natives st)
       \<le> max (currentActiveNum st) (unat (CandidateNum globalParam)) \<and>
    (currentActiveNum st \<le> unat (CandidateNum globalParam) \<longrightarrow>
       currentActiveNum (ApproveCandidates d natives st) \<le> unat (CandidateNum globalParam)) \<and>
    getGlobalParam (ApproveCandidates d natives st) = Inr globalParam \<and>
    GetView (ApproveCandidates d natives st) = Inr view"
proof -
  from ApproveCandidate_step[OF assms, of d native] obtain peerPoolMap1 where
    s: "GetView (snd (ApproveCandidate d native st)) = Inr view"
       "GetPeerPoolMap (snd (ApproveCandidate d native st)) view = Inr peerPoolMap1"
       "activeNum peerPoolMap1 \<le> Suc (activeNum peerPoolMap)"
       "isl (fst (ApproveCandidate d native st)) \<longrightarrow> peerPoolMap1 = peerPoolMap"
       "\<not> isl (fst (ApproveCandidate d native st)) \<longrightarrow>
          activeNum peerPoolMap < unat (CandidateNum globalParam)"
    by blast
  have A: "unat (CandidateNum globalParam) \<le> activeNum peerPoolMap \<longrightarrow>
       isl (fst (ApproveCandidate d native st)) \<and>
       GetPeerPoolMap (snd (ApproveCandidate d native st)) view = Inr peerPoolMap"
    using s(2,4,5) by auto
  have B: "\<forall>params operatorAddress peer peerPubkeyPrefix index.
       deserPeerParam d (GetInput native) = Some params \<and>
       AddressFromBookkeepers d = Inr operatorAddress \<and> CheckWitness native operatorAddress \<and>
       GetPeeApply st (PeerParam.PeerPubkey params) = Inr (Some peer) \<and>
       \<not> RegisterPeerParam.Pos peer < ucast (MinInitStake globalParam) \<and>
       DecodeString (RegisterPeerParam.PeerPubkey peer) = Some peerPubkeyPrefix \<and>
       PEER_INDEX st peerPubkeyPrefix = Present index \<longrightarrow>
       ApproveCandidate d native st =
         (if unat (CandidateNum globalParam) \<le> activeNum peerPoolMap
          then (Inl (Err ''approveCandidate, num of candidate node is full''), st)
          else (Inr True,
                st\<lparr>PEER_POOL := (PEER_POOL st)(view := Present
                  (AList.update (PeerParam.PeerPubkey params)
                     \<lparr>Index = index,
                      PeerPoolItem.PeerPubkey = RegisterPeerParam.PeerPubkey peer,
                      PeerPoolItem.Address = RegisterPeerParam.Address peer,
                      Status = CandidateStatus,
                      PeerPoolItem.Pos = RegisterPeerParam.Pos peer,
                      LockPos = 0\<rparr> peerPoolMap))\<rparr>))"
    using ApproveCandidate_indexed[where st=st and d=d and native=native
        and globalParam=globalParam and view=view and peerPoolMap=peerPoolMap] assms
    by blast
  have C: "\<forall>params operatorAddress peer peerPubkeyPrefix candidateIndex.
       deserPeerParam d (GetInput native) = Some params \<and>
       AddressFromBookkeepers d = Inr operatorAddress \<and> CheckWitness native operatorAddress \<and>
       GetPeeApply st (PeerParam.PeerPubkey params) = Inr (Some peer) \<and>
       \<not> RegisterPeerParam.Pos peer < ucast (MinInitStake globalParam) \<and>
       DecodeString (RegisterPeerParam.PeerPubkey peer) = Some peerPubkeyPrefix \<and>
       PEER_INDEX st peerPubkeyPrefix = Absent \<and>
       getCandidateIndex st = Inr candidateIndex \<longrightarrow>
       ApproveCandidate d native st =
         (if unat (CandidateNum globalParam) \<le> activeNum peerPoolMap
          then (Inl (Err ''approveCandidate, num of candidate node is full''),
                st\<lparr>CANDIDITE_INDEX := Present (candidateIndex + 1),
                   PEER_INDEX := (PEER_INDEX st)(peerPubkeyPrefix := Present candidateIndex)\<rparr>)
          else (Inr True,
                st\<lparr>CANDIDITE_INDEX := Present (candidateIndex + 1),
                   PEER_INDEX := (PEER_INDEX st)(peerPubkeyPrefix := Present candidateIndex),
                   PEER_POOL := (PEER_POOL st)(view := Present
                  (AList.update (PeerParam.PeerPubkey params)
                     \<lparr>Index = candidateIndex,
                      PeerPoolItem.PeerPubkey = RegisterPeerParam.PeerPubkey peer,
                      PeerPoolItem.Address = RegisterPeerParam.Address peer,
                      Status = CandidateStatus,
                      PeerPoolItem.Pos = RegisterPeerParam.Pos peer,
                      LockPos = 0\<rparr> peerPoolMap))\<rparr>))"
    using ApproveCandidate_fresh_index[where st=st and d=d and native=native
        and globalParam=globalParam and view=view and peerPoolMap=peerPoolMap] assms
    by blast
  have D: "currentActiveNum (snd (ApproveCandidate d native st)) \<le> Suc (currentActiveNum st)"
    using s(3) currentActiveNum_eq[OF assms(1,2)] currentActiveNum_eq[OF s(1,2)] by simp
  from ApproveCandidates_cap[OF assms, of d natives]
  have E: "currentActiveNum (ApproveCandidates d natives st)
       \<le> max (currentActiveNum st) (unat (CandidateNum globalParam))"
    and G: "getGlobalParam (ApproveCandidates d natives st) = Inr globalParam"
    and H: "GetView (ApproveCandidates d natives st) = Inr view"
    by blast+
  have F: "currentActiveNum st \<le> unat (CandidateNum globalParam) \<longrightarrow>
       currentActiveNum (ApproveCandidates d natives st) \<le> unat (CandidateNum globalParam)"
    using E by auto
  from A B C D E F G H show ?thesis by (intro conjI)
qed

theorem approve_other_error_counterexample:
  "currentActiveNum (example_store 49 7) = 49 \<and>
   getGlobalParam (example_store 49 7) = Inr \<lparr>MinInitStake = 1, CandidateNum = 49\<rparr> \<and>
   fst (ApproveCandidate example_deps (example_native [200] 255) (example_store 49 7)) =
     Inl (Err ''approveCandidate, peer is not applied'') \<and>
   fst (UpdateGlobalParam example_deps (example_native [1, 28] 255) (example_store 49 7)) =
     Inr True \<and>
   getGlobalParam (snd (UpdateGlobalParam example_deps (example_native [1, 28] 255)
      (example_store 49 7))) = Inr \<lparr>MinInitStake = 1, CandidateNum = 28\<rparr> \<and>
   currentActiveNum (snd (UpdateGlobalParam example_deps (example_native [1, 28] 255)
      (example_store 49 7))) = 49"
  by code_simp

theorem ApproveCandidate_candidate_cap_witness:
  "fst (ApproveCandidate example_deps (example_native [200] 255) (example_applied 49)) =
     Inl (Err ''approveCandidate, num of candidate node is full'') \<and>
   currentActiveNum (example_applied 8) = 8 \<and>
   fst (ApproveCandidate example_deps (example_native [200] 255) (example_applied 8)) = Inr True \<and>
   currentActiveNum (snd (ApproveCandidate example_deps (example_native [200] 255)
      (example_applied 8))) = 9 \<and>
   currentActiveNum (ApproveCandidates example_deps
      [example_native [200] 255, example_native [200] 255] (example_applied 8)) \<le> 49"
proof -
  let ?gp = "\<lparr>MinInitStake = 1, CandidateNum = 49\<rparr>"
  have v: "GetView (example_applied 8) = Inr 3" by code_simp
  have p: "GetPeerPoolMap (example_applied 8) 3 = Inr (example_pool 8)" by code_simp
  have g: "getGlobalParam (example_applied 8) = Inr ?gp" by code_simp
  have n: "currentActiveNum (example_applied 8) = 8" by code_simp
  note whole = ApproveCandidate_candidate_cap[OF v p g, of example_deps "example_native [200] 255"
      "[example_native [200] 255, example_native [200] 255]"]
  note seq = whole[THEN conjunct2, THEN conjunct2, THEN conjunct2, THEN conjunct2,
      THEN conjunct2, THEN conjunct1]
  have le: "currentActiveNum (example_applied 8) \<le> unat (CandidateNum ?gp)"
    using n by simp
  from seq le have s: "currentActiveNum (ApproveCandidates example_deps
      [example_native [200] 255, example_native [200] 255] (example_applied 8)) \<le> 49"
    by simp
  have f: "fst (ApproveCandidate example_deps (example_native [200] 255) (example_applied 49)) =
     Inl (Err ''approveCandidate, num of candidate node is full'')" by code_simp
  have a: "fst (ApproveCandidate example_deps (example_native [200] 255) (example_applied 8))
     = Inr True" by code_simp
  have b: "currentActiveNum (snd (ApproveCandidate example_deps (example_native [200] 255)
      (example_applied 8))) = 9" by code_simp
  from f n a b s show ?thesis by simp
qed

end
